theory Spec2Isabelle
  imports Main "HOL-Library.AList"
begin

section \<open>Python values and dictionaries\<close>

text \<open>
  Payloads typed \<open>Any\<close> in the source (task parameters, results, message contents)
  are JSON-like values. A Python \<open>dict\<close> keeps insertion order: assigning to an
  existing key keeps its position, a new key goes to the end. That is what
  \<open>AList.update\<close> does on an association list, and \<open>map_of\<close> is \<open>dict.get\<close>.
\<close>

datatype pyval =
    PNone
  | PBool bool
  | PInt int
  | PStr string
  | PList "pyval list"
  | PDict "(string \<times> pyval) list"

text \<open>Truthiness of an \<open>Optional[str]\<close>: \<open>None\<close> and the empty string are falsy.\<close>

fun truthy :: "string option \<Rightarrow> bool" where
  "truthy None = False"
| "truthy (Some s) = (s \<noteq> [])"

section \<open>agents\_test1: core/base.py\<close>

record message =
  sender :: string
  receiver :: string
  content :: pyval
  msg_type :: string

record agent =
  agent_id :: string
  agent_type :: string
  message_queue :: "message list"

text \<open>\<open>Agent.receive_message\<close>: a message addressed to another id is dropped.\<close>

definition receive_message :: "agent \<Rightarrow> message \<Rightarrow> agent" where
  "receive_message a m =
     (if receiver m = agent_id a then a\<lparr>message_queue := message_queue a @ [m]\<rparr> else a)"

text \<open>\<open>Agent.send_message\<close> only builds the message.\<close>

definition send_message :: "string \<Rightarrow> string \<Rightarrow> pyval \<Rightarrow> string \<Rightarrow> message" where
  "send_message self_id rcv c ty = \<lparr>sender = self_id, receiver = rcv, content = c, msg_type = ty\<rparr>"

section \<open>agents\_test1: core/coordinator.py\<close>

subsection \<open>Task and the registries\<close>

text \<open>
  \<open>datetime.now()\<close> is a logical clock: a read returns the clock's value and advances
  it, so a later read gives a later stamp.
\<close>

record task =
  task_id :: string
  task_type :: string
  params :: pyval
  priority :: pyval
  status :: string
  result :: pyval
  created_at :: nat
  started_at :: "nat option"
  completed_at :: "nat option"
  assigned_agent :: "string option"
  parent_task_id :: "string option"
  subtasks :: "string list"

text \<open>
  The process state: the \<open>tasks\<close> dictionary of the \<open>TaskRegistry\<close> singleton, the
  \<open>agents\<close> dictionary of the \<open>AgentRegistry\<close> singleton, the clock, and the number of
  \<open>uuid.uuid4()\<close> calls made so far. A \<open>Task\<close> object is created by \<open>create_task\<close>
  only, which registers it at once under its id, and nothing in the repository
  unregisters a task: an object is identified with its registry entry, and an
  operation that takes a \<open>Task\<close> takes its id.
\<close>

record system =
  tasks :: "(string \<times> task) list"
  agents :: "(string \<times> agent) list"
  clock :: nat
  uuid_count :: nat

definition register :: "system \<Rightarrow> task \<Rightarrow> system" where
  "register st t = st\<lparr>tasks := AList.update (task_id t) t (tasks st)\<rparr>"

definition get_task :: "system \<Rightarrow> string \<Rightarrow> task option" where
  "get_task st tid = map_of (tasks st) tid"

definition get_tasks_by_agent :: "system \<Rightarrow> string \<Rightarrow> task list" where
  "get_tasks_by_agent st aid = filter (\<lambda>t. assigned_agent t = Some aid) (map snd (tasks st))"

definition get_agent :: "system \<Rightarrow> string \<Rightarrow> agent option" where
  "get_agent st aid = map_of (agents st) aid"

definition get_agents_by_type :: "system \<Rightarrow> string \<Rightarrow> agent list" where
  "get_agents_by_type st ty = filter (\<lambda>a. agent_type a = ty) (map snd (agents st))"

definition register_agent :: "system \<Rightarrow> agent \<Rightarrow> system" where
  "register_agent st a = st\<lparr>agents := AList.update (agent_id a) a (agents st)\<rparr>"

subsection \<open>TaskManager.update\_task\_status and \_check\_parent\_task\_completion\<close>

text \<open>
  The loop over \<open>parent_task.subtasks\<close>: \<open>None\<close> is \<open>all_completed = False\<close> (the
  \<open>break\<close>), \<open>Some d\<close> is the dictionary \<open>subtask_results\<close> after the last child.
\<close>

fun collect_results ::
  "(string \<times> task) list \<Rightarrow> string list \<Rightarrow> (string \<times> pyval) list \<Rightarrow> (string \<times> pyval) list option"
where
  "collect_results reg [] acc = Some acc"
| "collect_results reg (sid # sids) acc =
     (case map_of reg sid of
        None \<Rightarrow> None
      | Some subtask \<Rightarrow>
          if status subtask \<noteq> ''completed'' then None
          else collect_results reg sids (AList.update (task_type subtask) (result subtask) acc))"

text \<open>The three assignments to the parent when every child is completed.\<close>

definition complete_parent :: "system \<Rightarrow> string \<Rightarrow> task \<Rightarrow> (string \<times> pyval) list \<Rightarrow> system" where
  "complete_parent st pid parent_task subtask_results =
     st\<lparr>tasks := AList.update pid
            (parent_task\<lparr>status := ''completed'',
                         completed_at := Some (clock st),
                         result := PDict subtask_results\<rparr>) (tasks st),
        clock := Suc (clock st)\<rparr>"

text \<open>
  The recursion follows the parent ids and has no bound in the source: on a cyclic
  parent chain of completed tasks it does not return, which is the value \<open>None\<close>.
\<close>

partial_function (option) check_parent_task_completion :: "system \<Rightarrow> string \<Rightarrow> system option" where
  "check_parent_task_completion st pid =
     (case get_task st pid of
        None \<Rightarrow> Some st
      | Some parent_task \<Rightarrow>
          if subtasks parent_task = [] then Some st
          else
            (case collect_results (tasks st) (subtasks parent_task) [] of
               None \<Rightarrow> Some st
             | Some subtask_results \<Rightarrow>
                 if truthy (parent_task_id parent_task)
                 then check_parent_task_completion
                        (complete_parent st pid parent_task subtask_results)
                        (the (parent_task_id parent_task))
                 else Some (complete_parent st pid parent_task subtask_results)))"

text \<open>
  \<open>update_task_status\<close> returns the boolean of the source and the new state; \<open>None\<close>
  is the parent check not returning.
\<close>

definition set_status :: "system \<Rightarrow> string \<Rightarrow> task \<Rightarrow> string \<Rightarrow> system" where
  "set_status st tid t s = st\<lparr>tasks := AList.update tid (t\<lparr>status := s\<rparr>) (tasks st)\<rparr>"

definition set_outcome :: "system \<Rightarrow> string \<Rightarrow> task \<Rightarrow> string \<Rightarrow> pyval \<Rightarrow> system" where
  "set_outcome st tid t s r =
     st\<lparr>tasks := AList.update tid
            (t\<lparr>status := s, completed_at := Some (clock st), result := r\<rparr>) (tasks st),
        clock := Suc (clock st)\<rparr>"

definition update_task_status ::
  "system \<Rightarrow> string \<Rightarrow> string \<Rightarrow> pyval \<Rightarrow> (bool \<times> system) option"
where
  "update_task_status st tid s r =
     (case get_task st tid of
        None \<Rightarrow> Some (False, st)
      | Some t \<Rightarrow>
          if s = ''completed'' \<or> s = ''failed'' then
            (if truthy (parent_task_id t)
             then map_option (Pair True)
                    (check_parent_task_completion (set_outcome st tid t s r)
                       (the (parent_task_id t)))
             else Some (True, set_outcome st tid t s r))
          else Some (True, set_status st tid t s))"

subsection \<open>Task.\_\_init\_\_ and TaskManager.create\_task\<close>

definition new_task :: "string \<Rightarrow> string \<Rightarrow> pyval \<Rightarrow> pyval \<Rightarrow> nat \<Rightarrow> task" where
  "new_task tid ty ps prio now =
     \<lparr>task_id = tid, task_type = ty, params = ps, priority = prio, status = ''pending'',
      result = PNone, created_at = now, started_at = None, completed_at = None,
      assigned_agent = None, parent_task_id = None, subtasks = []\<rparr>"

text \<open>
  \<open>uuid.uuid4()\<close> is read from the environment: \<open>gen\<close> is the sequence of identifiers it
  returns, and the state counts the calls. The theorems that need a new identifier to be
  new say so as a hypothesis on \<open>gen\<close>.
\<close>

definition create_task ::
  "(nat \<Rightarrow> string) \<Rightarrow> system \<Rightarrow> string \<Rightarrow> pyval \<Rightarrow> pyval \<Rightarrow> string \<times> system"
where
  "create_task gen st ty ps prio =
     (gen (uuid_count st),
      register (st\<lparr>clock := Suc (clock st), uuid_count := Suc (uuid_count st)\<rparr>)
               (new_task (gen (uuid_count st)) ty ps prio (clock st)))"

text \<open>An attribute assignment on the object registered under \<open>k\<close>.\<close>

definition modify_task :: "system \<Rightarrow> string \<Rightarrow> (task \<Rightarrow> task) \<Rightarrow> system" where
  "modify_task st k f =
     (case get_task st k of
        None \<Rightarrow> st
      | Some t \<Rightarrow> st\<lparr>tasks := AList.update k (f t) (tasks st)\<rparr>)"

subsection \<open>TaskManager.decompose\_task\<close>

text \<open>A subtask specification: the dictionary with the keys \<open>task_type\<close> and \<open>params\<close>.\<close>

record subtask_spec =
  spec_task_type :: string
  spec_params :: pyval

fun decompose_loop ::
  "(nat \<Rightarrow> string) \<Rightarrow> system \<Rightarrow> string \<Rightarrow> subtask_spec list \<Rightarrow> string list \<times> system"
where
  "decompose_loop gen st tid [] = ([], st)"
| "decompose_loop gen st tid (spec # specs) =
     (case create_task gen st (spec_task_type spec) (spec_params spec)
             (priority (the (get_task st tid))) of
        (sid, st1) \<Rightarrow>
          (case decompose_loop gen
                  (modify_task
                     (modify_task st1 sid
                        (\<lambda>subtask. subtask\<lparr>parent_task_id :=
                                      Some (task_id (the (get_task st tid)))\<rparr>))
                     tid (\<lambda>t. t\<lparr>subtasks := subtasks t @ [sid]\<rparr>))
                  tid specs of
             (sids, st2) \<Rightarrow> (sid # sids, st2)))"

text \<open>
  The result is the list of the new subtasks (their ids) and the new state; \<open>None\<close>
  stands for a \<open>Task\<close> that is not in the registry, which the model does not cover.
\<close>

definition decompose_task ::
  "(nat \<Rightarrow> string) \<Rightarrow> system \<Rightarrow> string \<Rightarrow> subtask_spec list \<Rightarrow> (string list \<times> system) option"
where
  "decompose_task gen st tid subtask_specs =
     (case get_task st tid of
        None \<Rightarrow> None
      | Some _ \<Rightarrow>
          (case decompose_loop gen st tid subtask_specs of
             (sids, st1) \<Rightarrow>
               Some (sids,
                     modify_task st1 tid
                       (\<lambda>t. if status t = ''pending'' then t\<lparr>status := ''decomposed''\<rparr> else t))))"

subsection \<open>TaskManager.assign\_task\<close>

definition task_type_to_agent_type :: "(string \<times> string) list" where
  "task_type_to_agent_type =
     [(''market_analysis'', ''market_trend_analysis_agent''),
      (''selling_point_analysis'', ''selling_point_analysis_agent''),
      (''competitor_analysis'', ''competitor_analysis_agent''),
      (''price_analysis'', ''price_analysis_agent''),
      (''comprehensive_analysis'', ''comprehensive_analysis_agent'')]"

text \<open>Python's \<open>min(xs, key=f)\<close> on a non-empty list: the first element with the least key.\<close>

fun min_by :: "('a \<Rightarrow> nat) \<Rightarrow> 'a \<Rightarrow> 'a list \<Rightarrow> 'a" where
  "min_by key best [] = best"
| "min_by key best (x # xs) =
     (if key x < key best then min_by key x xs else min_by key best xs)"

definition load :: "system \<Rightarrow> agent \<Rightarrow> nat" where
  "load st a = length (get_tasks_by_agent st (agent_id a))"

text \<open>The automatic choice: \<open>None\<close> is one of the two \<open>return False\<close> before it.\<close>

definition choose_agent :: "system \<Rightarrow> task \<Rightarrow> string option" where
  "choose_agent st t =
     (case map_of task_type_to_agent_type (task_type t) of
        None \<Rightarrow> None
      | Some ty \<Rightarrow>
          (case get_agents_by_type st ty of
             [] \<Rightarrow> None
           | a # as \<Rightarrow> Some (agent_id (min_by (load st) a as))))"

definition deliver :: "system \<Rightarrow> string \<Rightarrow> agent \<Rightarrow> message \<Rightarrow> system" where
  "deliver st aid a m = st\<lparr>agents := AList.update aid (receive_message a m) (agents st)\<rparr>"

definition do_assign :: "system \<Rightarrow> string \<Rightarrow> task \<Rightarrow> string \<Rightarrow> (bool \<times> system)" where
  "do_assign st tid t aid =
     (case get_agent st aid of
        None \<Rightarrow> (False, st)
      | Some a \<Rightarrow>
          (True,
           deliver
             (st\<lparr>tasks := AList.update tid
                    (t\<lparr>assigned_agent := Some aid, status := ''assigned'',
                       started_at := Some (clock st)\<rparr>) (tasks st),
                 clock := Suc (clock st)\<rparr>)
             aid a
             \<lparr>sender = ''task_manager'', receiver = aid,
              content = PDict [(''task_id'', PStr (task_id t)),
                               (''task_type'', PStr (task_type t)),
                               (''params'', params t)],
              msg_type = ''task''\<rparr>))"

text \<open>
  \<open>assign_task(task, agent_id)\<close>; \<open>None\<close> stands for a \<open>Task\<close> that is not in the
  registry.
\<close>

definition assign_task :: "system \<Rightarrow> string \<Rightarrow> string option \<Rightarrow> (bool \<times> system) option" where
  "assign_task st tid agent_id_arg =
     (case get_task st tid of
        None \<Rightarrow> None
      | Some t \<Rightarrow>
          if status t \<noteq> ''pending'' then Some (False, st)
          else
            (case agent_id_arg of
               Some aid \<Rightarrow> Some (do_assign st tid t aid)
             | None \<Rightarrow>
                 (case choose_agent st t of
                    None \<Rightarrow> Some (False, st)
                  | Some aid \<Rightarrow> Some (do_assign st tid t aid))))"

subsection \<open>Coordinator.process\_message\<close>

text \<open>
  \<open>AttributeError\<close> and \<open>RecursionError\<close> are the exceptions of the source (the second
  is the parent check not returning). \<open>IllTyped\<close> marks a message field outside the
  declared parameter types (\<open>task_id: str\<close>, \<open>status: str\<close>, \<open>task_type: str\<close>), where
  the model stops.
\<close>

datatype py_error = AttributeError | RecursionError | IllTyped

definition comprehensive_specs :: "(string \<times> pyval) list \<Rightarrow> subtask_spec list" where
  "comprehensive_specs ps =
     (let category = (case map_of ps ''category'' of None \<Rightarrow> PStr [] | Some v \<Rightarrow> v);
          start_date = (case map_of ps ''start_date'' of None \<Rightarrow> PStr [] | Some v \<Rightarrow> v);
          end_date = (case map_of ps ''end_date'' of None \<Rightarrow> PStr [] | Some v \<Rightarrow> v);
          dates = [(''category'', category), (''start_date'', start_date), (''end_date'', end_date)]
      in [\<lparr>spec_task_type = ''market_analysis'',
           spec_params = PDict (dates @ [(''metrics'',
              PList [PStr ''sales'', PStr ''volume'', PStr ''market_share''])])\<rparr>,
          \<lparr>spec_task_type = ''selling_point_analysis'', spec_params = PDict dates\<rparr>,
          \<lparr>spec_task_type = ''competitor_analysis'', spec_params = PDict dates\<rparr>,
          \<lparr>spec_task_type = ''price_analysis'', spec_params = PDict dates\<rparr>])"

definition assign_all :: "system \<Rightarrow> string list \<Rightarrow> system" where
  "assign_all st sids =
     fold (\<lambda>sid s. case assign_task s sid None of Some (_, s') \<Rightarrow> s' | None \<Rightarrow> s) sids st"

definition task_request ::
  "string \<Rightarrow> (nat \<Rightarrow> string) \<Rightarrow> system \<Rightarrow> message \<Rightarrow> py_error + (message option \<times> system)"
where
  "task_request self_id gen st m =
     (case content m of
        PDict c \<Rightarrow>
          (case map_of c ''task_type'' of
             None \<Rightarrow>
               Inr (Some (send_message self_id (sender m)
                      (PDict [(''error'',
                         PStr ''Invalid task request format. Must contain 'task_type' field.'')])
                      ''error''), st)
           | Some (PStr ty) \<Rightarrow>
               (case create_task gen st ty
                       (case map_of c ''params'' of None \<Rightarrow> PDict [] | Some v \<Rightarrow> v)
                       (case map_of c ''priority'' of None \<Rightarrow> PInt 1 | Some v \<Rightarrow> v) of
                  (tid, st1) \<Rightarrow>
                    if ty = ''comprehensive_analysis'' then
                      (case (case map_of c ''params'' of None \<Rightarrow> PDict [] | Some v \<Rightarrow> v) of
                         PDict ps \<Rightarrow>
                           (case decompose_task gen st1 tid (comprehensive_specs ps) of
                              None \<Rightarrow> Inl IllTyped
                            | Some (sids, st2) \<Rightarrow>
                                Inr (Some (send_message self_id (sender m)
                                       (PDict [(''task_id'', PStr tid),
                                               (''status'', PStr ''decomposed''),
                                               (''subtasks'', PList (map PStr sids))])
                                       ''task_response''),
                                     assign_all st2 sids))
                       | _ \<Rightarrow> Inl AttributeError)
                    else
                      (case assign_task st1 tid None of
                         None \<Rightarrow> Inl IllTyped
                       | Some (success, st2) \<Rightarrow>
                           if success then
                             Inr (Some (send_message self_id (sender m)
                                    (PDict [(''task_id'', PStr tid), (''status'', PStr ''assigned'')])
                                    ''task_response''), st2)
                           else
                             Inr (Some (send_message self_id (sender m)
                                    (PDict [(''error'',
                                       PStr ''Failed to assign task. No suitable agent available.'')])
                                    ''error''), st2)))
           | Some _ \<Rightarrow> Inl IllTyped)
      | _ \<Rightarrow>
          Inr (Some (send_message self_id (sender m)
                 (PDict [(''error'',
                    PStr ''Invalid task request format. Must contain 'task_type' field.'')])
                 ''error''), st))"

definition task_result ::
  "string \<Rightarrow> system \<Rightarrow> message \<Rightarrow> py_error + (message option \<times> system)"
where
  "task_result self_id st m =
     (case content m of
        PDict c \<Rightarrow>
          (case map_of c ''task_id'' of
             None \<Rightarrow> Inr (None, st)
           | Some (PStr tid) \<Rightarrow>
               (case (case map_of c ''status'' of None \<Rightarrow> PStr ''completed'' | Some v \<Rightarrow> v) of
                  PStr s \<Rightarrow>
                    (case update_task_status st tid s
                            (case map_of c ''result'' of None \<Rightarrow> PNone | Some v \<Rightarrow> v) of
                       None \<Rightarrow> Inl RecursionError
                     | Some (_, st1) \<Rightarrow>
                         (case get_task st1 tid of
                            None \<Rightarrow> Inr (None, st1)
                          | Some t \<Rightarrow>
                              if truthy (parent_task_id t) then Inr (None, st1)
                              else
                                Inr (Some (send_message self_id (sender m)
                                       (PDict [(''task_id'', PStr tid),
                                               (''status'', PStr s),
                                               (''result'',
                                                 (case map_of c ''result'' of
                                                    None \<Rightarrow> PNone | Some v \<Rightarrow> v))])
                                       ''task_completed''), st1)))
                | _ \<Rightarrow> Inl IllTyped)
           | Some _ \<Rightarrow> Inl IllTyped)
      | _ \<Rightarrow> Inr (None, st))"

text \<open>
  \<open>callbacks\<close> maps a message type to a registered callable, taken here as a function of
  the message; the repository registers none.
\<close>

definition process_message ::
  "(string \<rightharpoonup> (message \<Rightarrow> message option)) \<Rightarrow> string \<Rightarrow> (nat \<Rightarrow> string) \<Rightarrow> system \<Rightarrow> message
     \<Rightarrow> py_error + (message option \<times> system)"
where
  "process_message callbacks self_id gen st m =
     (case callbacks (msg_type m) of
        Some callback \<Rightarrow> Inr (callback m, st)
      | None \<Rightarrow>
          if msg_type m = ''task_request'' then task_request self_id gen st m
          else if msg_type m = ''task_result'' then task_result self_id st m
          else Inr (None, st))"

section \<open>agents\_test3: business\_analysis\<close>

subsection \<open>models/message.py and the task dictionaries\<close>

record amessage =
  message_id :: string
  from_agent_id :: string
  to_agent_id :: string
  content3 :: "(string \<times> pyval) list"
  message_type :: string
  reference_id :: "string option"
  timestamp :: nat

text \<open>
  A task of the coordinator agent is a dictionary; \<open>depends_on\<close> is \<open>None\<close> when the
  key is absent.
\<close>

record atask =
  a_task_id :: string
  a_task_type :: string
  parameters :: "(string \<times> pyval) list"
  depends_on :: "string list option"
  required_expertise :: string

text \<open>An entry of \<open>active_tasks\<close>; \<open>error\<close> and \<open>assigned_agent\<close> are optional keys.\<close>

record active_task =
  entry_task :: atask
  entry_status :: string
  entry_analysis_id :: string
  entry_error :: "string option"
  entry_assigned_agent :: "string option"

subsection \<open>agents/base\_agent.py and agents/coordinator\_agent.py\<close>

text \<open>
  The coordinator agent. \<open>has_handler\<close> tells whether \<open>message_handler\<close> is set, and
  \<open>handed_over\<close> lists the messages passed to \<open>message_handler.send_message\<close>.
\<close>

record coordinator_agent =
  self_agent_id :: string
  memory :: "(string \<times> pyval) list"
  has_handler :: bool
  handed_over :: "amessage list"
  available_agents :: "(string \<times> (string \<times> pyval) list) list"
  active_tasks :: "(string \<times> active_task) list"
  task_results :: "(string \<times> (string \<times> pyval) list) list"
  current_analysis_id :: "string option"
  clock3 :: nat
  uuid_count3 :: nat

definition send_message3 ::
  "(nat \<Rightarrow> string) \<Rightarrow> coordinator_agent \<Rightarrow> string \<Rightarrow> (string \<times> pyval) list \<Rightarrow> string
     \<Rightarrow> string option \<Rightarrow> coordinator_agent"
where
  "send_message3 gen st rcv c ty ref =
     st\<lparr>handed_over :=
          (if has_handler st
           then handed_over st @
                  [\<lparr>message_id = gen (uuid_count3 st), from_agent_id = self_agent_id st,
                    to_agent_id = rcv, content3 = c, message_type = ty, reference_id = ref,
                    timestamp = clock3 st\<rparr>]
           else handed_over st),
        clock3 := Suc (clock3 st),
        uuid_count3 := Suc (uuid_count3 st)\<rparr>"

definition update_memory :: "coordinator_agent \<Rightarrow> string \<Rightarrow> pyval \<Rightarrow> coordinator_agent" where
  "update_memory st k v = st\<lparr>memory := AList.update k v (memory st)\<rparr>"

definition register_agent3 ::
  "coordinator_agent \<Rightarrow> string \<Rightarrow> (string \<times> pyval) list \<Rightarrow> coordinator_agent"
where
  "register_agent3 st aid agent_info =
     st\<lparr>available_agents := AList.update aid agent_info (available_agents st)\<rparr>"

fun check_dependencies :: "coordinator_agent \<Rightarrow> string list \<Rightarrow> bool" where
  "check_dependencies st [] = True"
| "check_dependencies st (dep_task_id # deps) =
     (case map_of (task_results st) dep_task_id of
        None \<Rightarrow> False
      | Some r \<Rightarrow>
          if map_of r ''status'' \<noteq> Some (PStr ''completed'') then False
          else check_dependencies st deps)"

fun find_in_agents :: "(string \<times> (string \<times> pyval) list) list \<Rightarrow> string \<Rightarrow> string option" where
  "find_in_agents [] required = None"
| "find_in_agents ((aid, agent_info) # rest) required =
     (if map_of agent_info ''expertise'' = Some (PStr required) \<and>
         (case map_of agent_info ''status'' of None \<Rightarrow> PStr ''available'' | Some v \<Rightarrow> v)
           = PStr ''available''
      then Some aid
      else find_in_agents rest required)"

definition find_suitable_agent :: "coordinator_agent \<Rightarrow> string \<Rightarrow> string option" where
  "find_suitable_agent st required = find_in_agents (available_agents st) required"

definition assign_task3 ::
  "(nat \<Rightarrow> string) \<Rightarrow> coordinator_agent \<Rightarrow> atask \<Rightarrow> string \<Rightarrow> coordinator_agent"
where
  "assign_task3 gen st t analysis_id =
     (if depends_on t \<noteq> None \<and> \<not> check_dependencies st (the (depends_on t)) then
        st\<lparr>active_tasks := AList.update (a_task_id t)
              \<lparr>entry_task = t, entry_status = ''waiting'', entry_analysis_id = analysis_id,
               entry_error = None, entry_assigned_agent = None\<rparr> (active_tasks st)\<rparr>
      else
        (case find_suitable_agent st (required_expertise t) of
           None \<Rightarrow>
             st\<lparr>active_tasks := AList.update (a_task_id t)
                   \<lparr>entry_task = t, entry_status = ''failed'', entry_analysis_id = analysis_id,
                    entry_error = Some ''No suitable agent found'',
                    entry_assigned_agent = None\<rparr> (active_tasks st)\<rparr>
         | Some suitable_agent \<Rightarrow>
             if suitable_agent = [] then
               st\<lparr>active_tasks := AList.update (a_task_id t)
                     \<lparr>entry_task = t, entry_status = ''failed'', entry_analysis_id = analysis_id,
                      entry_error = Some ''No suitable agent found'',
                      entry_assigned_agent = None\<rparr> (active_tasks st)\<rparr>
             else
               send_message3 gen
                 (st\<lparr>active_tasks := AList.update (a_task_id t)
                       \<lparr>entry_task = t, entry_status = ''assigned'',
                        entry_analysis_id = analysis_id, entry_error = None,
                        entry_assigned_agent = Some suitable_agent\<rparr> (active_tasks st)\<rparr>)
                 suitable_agent
                 [(''task'', PDict ([(''task_id'', PStr (a_task_id t)),
                                     (''task_type'', PStr (a_task_type t)),
                                     (''parameters'', PDict (parameters t))] @
                                    (case depends_on t of
                                       None \<Rightarrow> []
                                     | Some ds \<Rightarrow> [(''depends_on'', PList (map PStr ds))]) @
                                    [(''required_expertise'', PStr (required_expertise t))])),
                  (''analysis_id'', PStr analysis_id)]
                 ''task_assignment'' (Some (a_task_id t))))"

text \<open>The two analysis types, as the UTF-8 bytes of the source's string literals.\<close>

definition market_trend :: string where
  "market_trend = [CHR 0xE5, CHR 0xB8, CHR 0x82, CHR 0xE5, CHR 0x9C, CHR 0xBA,
                   CHR 0xE8, CHR 0xB6, CHR 0x8B, CHR 0xE5, CHR 0x8A, CHR 0xBF]"

definition competitor_study :: string where
  "competitor_study = [CHR 0xE7, CHR 0xAB, CHR 0x9E, CHR 0xE5, CHR 0x93, CHR 0x81,
                       CHR 0xE5, CHR 0x88, CHR 0x86, CHR 0xE6, CHR 0x9E, CHR 0x90]"

definition get_or_none :: "(string \<times> pyval) list \<Rightarrow> string \<Rightarrow> pyval" where
  "get_or_none d k = (case map_of d k of None \<Rightarrow> PNone | Some v \<Rightarrow> v)"

definition decompose_analysis_task :: "(string \<times> pyval) list \<Rightarrow> atask list" where
  "decompose_analysis_task analysis_request =
     (if map_of analysis_request ''analysis_type'' = Some (PStr market_trend) then
        [\<lparr>a_task_id = ''data_collection_1'', a_task_type = ''data_collection'',
          parameters = [(''category'', get_or_none analysis_request ''category''),
                        (''time_range'', get_or_none analysis_request ''time_range''),
                        (''data_types'', PList [PStr ''market_data'', PStr ''sales_data''])],
          depends_on = None, required_expertise = ''market_data''\<rparr>,
         \<lparr>a_task_id = ''data_analysis_2'', a_task_type = ''data_analysis'',
          parameters = [(''analysis_methods'',
                           PList [PStr ''trend_analysis'', PStr ''seasonality_analysis'']),
                        (''dimensions'',
                           PList [PStr ''sales'', PStr ''market_share'', PStr ''growth_rate''])],
          depends_on = Some [''data_collection_1''], required_expertise = ''market_analysis''\<rparr>,
         \<lparr>a_task_id = ''insight_generation_3'', a_task_type = ''insight_generation'',
          parameters = [(''insight_types'',
                           PList [PStr ''trend_insights'', PStr ''opportunity_insights'',
                                  PStr ''risk_insights'']),
                        (''max_insights'', PInt 5)],
          depends_on = Some [''data_analysis_2''], required_expertise = ''business_strategy''\<rparr>]
      else if map_of analysis_request ''analysis_type'' = Some (PStr competitor_study) then
        [\<lparr>a_task_id = ''data_collection_1'', a_task_type = ''data_collection'',
          parameters = [(''category'', get_or_none analysis_request ''category''),
                        (''time_range'', get_or_none analysis_request ''time_range''),
                        (''data_types'', PList [PStr ''competitor_data'', PStr ''product_data''])],
          depends_on = None, required_expertise = ''competitor_data''\<rparr>,
         \<lparr>a_task_id = ''data_analysis_2'', a_task_type = ''data_analysis'',
          parameters = [(''analysis_methods'',
                           PList [PStr ''comparative_analysis'', PStr ''gap_analysis'']),
                        (''dimensions'',
                           PList [PStr ''price'', PStr ''features'', PStr ''market_position''])],
          depends_on = Some [''data_collection_1''], required_expertise = ''competitor_analysis''\<rparr>,
         \<lparr>a_task_id = ''insight_generation_3'', a_task_type = ''insight_generation'',
          parameters = [(''insight_types'',
                           PList [PStr ''competitive_advantage'', PStr ''threat_insights'',
                                  PStr ''opportunity_insights'']),
                        (''max_insights'', PInt 5)],
          depends_on = Some [''data_analysis_2''], required_expertise = ''business_strategy''\<rparr>]
      else [])"

definition analysis_record :: "amessage \<Rightarrow> string list \<Rightarrow> pyval" where
  "analysis_record m ids =
     PDict [(''request'', PDict (content3 m)), (''requester_id'', PStr (from_agent_id m)),
            (''status'', PStr ''in_progress''), (''tasks'', PList (map PStr ids))]"

definition start_analysis_workflow ::
  "(nat \<Rightarrow> string) \<Rightarrow> coordinator_agent \<Rightarrow> amessage \<Rightarrow> coordinator_agent"
where
  "start_analysis_workflow gen st m =
     fold (\<lambda>t s. assign_task3 gen s t (message_id m))
       (decompose_analysis_task (content3 m))
       (update_memory
          (update_memory (st\<lparr>current_analysis_id := Some (message_id m)\<rparr>)
             (''analysis_'' @ message_id m) (analysis_record m []))
          (''analysis_'' @ message_id m)
          (analysis_record m (map a_task_id (decompose_analysis_task (content3 m)))))"

text \<open>
  \<open>_process_task_result\<close>, \<open>_is_analysis_complete\<close> and \<open>_finalize_analysis\<close> are defined
  neither in \<open>CoordinatorAgent\<close> nor in \<open>BaseAgent\<close>: looking one up on \<open>self\<close> raises
  \<open>AttributeError\<close>.
\<close>

definition process_message3 ::
  "(nat \<Rightarrow> string) \<Rightarrow> coordinator_agent \<Rightarrow> amessage \<Rightarrow> py_error + coordinator_agent"
where
  "process_message3 gen st m =
     (if message_type m = ''analysis_request'' then Inr (start_analysis_workflow gen st m)
      else if message_type m = ''task_result'' then Inl AttributeError
      else if message_type m = ''agent_registration'' then
        Inr (send_message3 gen (register_agent3 st (from_agent_id m) (content3 m))
               (from_agent_id m) [(''status'', PStr ''registered'')]
               ''registration_confirmation'' (Some (message_id m)))
      else Inr st)"

definition act :: "coordinator_agent \<Rightarrow> py_error + coordinator_agent" where
  "act st = (if truthy (current_analysis_id st) then Inl AttributeError else Inr st)"

section \<open>The singleton registries\<close>

text \<open>
  \<open>TaskRegistry.__new__\<close> and \<open>AgentRegistry.__new__\<close> keep the one object of the class in
  the class attribute \<open>_instance\<close>. A process holds the two class attributes and the
  registry objects ever allocated (a reference is an index); a \<open>TaskManager\<close> holds the
  references that its constructor got.
\<close>

record process =
  task_registry_instance :: "nat option"
  agent_registry_instance :: "nat option"
  task_registry_objects :: "(string \<times> task) list list"
  agent_registry_objects :: "(string \<times> agent) list list"
  process_clock :: nat
  process_uuid_count :: nat

record task_manager =
  task_registry :: nat
  agent_registry :: nat

definition TaskRegistry_new :: "process \<Rightarrow> nat \<times> process" where
  "TaskRegistry_new p =
     (case task_registry_instance p of
        None \<Rightarrow>
          (length (task_registry_objects p),
           p\<lparr>task_registry_objects := task_registry_objects p @ [[]],
             task_registry_instance := Some (length (task_registry_objects p))\<rparr>)
      | Some r \<Rightarrow> (r, p))"

definition AgentRegistry_new :: "process \<Rightarrow> nat \<times> process" where
  "AgentRegistry_new p =
     (case agent_registry_instance p of
        None \<Rightarrow>
          (length (agent_registry_objects p),
           p\<lparr>agent_registry_objects := agent_registry_objects p @ [[]],
             agent_registry_instance := Some (length (agent_registry_objects p))\<rparr>)
      | Some r \<Rightarrow> (r, p))"

definition TaskManager_init :: "process \<Rightarrow> task_manager \<times> process" where
  "TaskManager_init p =
     (case TaskRegistry_new p of
        (tr, p1) \<Rightarrow>
          (case AgentRegistry_new p1 of
             (ar, p2) \<Rightarrow> (\<lparr>task_registry = tr, agent_registry = ar\<rparr>, p2)))"

text \<open>The registries a manager works on, and a manager's operation run in the process.\<close>

definition view :: "process \<Rightarrow> task_manager \<Rightarrow> system" where
  "view p m =
     \<lparr>tasks = task_registry_objects p ! task_registry m,
      agents = agent_registry_objects p ! agent_registry m,
      clock = process_clock p, uuid_count = process_uuid_count p\<rparr>"

definition store :: "process \<Rightarrow> task_manager \<Rightarrow> system \<Rightarrow> process" where
  "store p m s =
     p\<lparr>task_registry_objects := (task_registry_objects p)[task_registry m := tasks s],
       agent_registry_objects := (agent_registry_objects p)[agent_registry m := agents s],
       process_clock := clock s, process_uuid_count := uuid_count s\<rparr>"

definition manager_create_task ::
  "(nat \<Rightarrow> string) \<Rightarrow> process \<Rightarrow> task_manager \<Rightarrow> string \<Rightarrow> pyval \<Rightarrow> pyval \<Rightarrow> string \<times> process"
where
  "manager_create_task gen p m ty ps prio =
     (case create_task gen (view p m) ty ps prio of (tid, s) \<Rightarrow> (tid, store p m s))"

definition manager_get_task :: "process \<Rightarrow> task_manager \<Rightarrow> string \<Rightarrow> task option" where
  "manager_get_task p m tid = get_task (view p m) tid"

text \<open>
  \<open>TaskRegistry.register\<close> and \<open>get_task\<close>, \<open>AgentRegistry.register\<close> and \<open>get_agent\<close>, on
  the registry object behind a reference; and \<open>Coordinator.__init__\<close>, which builds a
  \<open>TaskManager\<close> and asks for the \<open>AgentRegistry\<close> once more.
\<close>

definition registry_register :: "process \<Rightarrow> nat \<Rightarrow> task \<Rightarrow> process" where
  "registry_register p r t =
     p\<lparr>task_registry_objects :=
         (task_registry_objects p)[r := AList.update (task_id t) t (task_registry_objects p ! r)]\<rparr>"

definition registry_get_task :: "process \<Rightarrow> nat \<Rightarrow> string \<Rightarrow> task option" where
  "registry_get_task p r tid = map_of (task_registry_objects p ! r) tid"

definition registry_register_agent :: "process \<Rightarrow> nat \<Rightarrow> agent \<Rightarrow> process" where
  "registry_register_agent p r a =
     p\<lparr>agent_registry_objects :=
         (agent_registry_objects p)[r := AList.update (agent_id a) a (agent_registry_objects p ! r)]\<rparr>"

definition registry_get_agent :: "process \<Rightarrow> nat \<Rightarrow> string \<Rightarrow> agent option" where
  "registry_get_agent p r aid = map_of (agent_registry_objects p ! r) aid"

record coordinator =
  coordinator_agent_part :: agent
  coordinator_task_manager :: task_manager
  coordinator_agent_registry :: nat
  coordinator_callbacks :: "(string \<times> (message \<Rightarrow> message option)) list"

definition Coordinator_init :: "process \<Rightarrow> string \<Rightarrow> coordinator \<times> process" where
  "Coordinator_init p aid =
     (case TaskManager_init p of
        (tm, p1) \<Rightarrow>
          (case AgentRegistry_new p1 of
             (ar, p2) \<Rightarrow>
               (\<lparr>coordinator_agent_part =
                    \<lparr>agent_id = aid, agent_type = ''coordinator'', message_queue = []\<rparr>,
                  coordinator_task_manager = tm, coordinator_agent_registry = ar,
                  coordinator_callbacks = []\<rparr>, p2)))"

definition valid_process :: "process \<Rightarrow> bool" where
  "valid_process p =
     ((case task_registry_instance p of
         None \<Rightarrow> True | Some r \<Rightarrow> r < length (task_registry_objects p)) \<and>
      (case agent_registry_instance p of
         None \<Rightarrow> True | Some r \<Rightarrow> r < length (agent_registry_objects p)))"

section \<open>Observations and well-formed task trees\<close>

definition status_of :: "system \<Rightarrow> string \<Rightarrow> string option" where
  "status_of st tid = map_option status (get_task st tid)"

definition result_of :: "system \<Rightarrow> string \<Rightarrow> pyval option" where
  "result_of st tid = map_option result (get_task st tid)"


definition subtasks_of :: "system \<Rightarrow> string \<Rightarrow> string list option" where
  "subtasks_of st tid = map_option subtasks (get_task st tid)"

text \<open>
  The parent links and the subtask lists form a forest when some level function
  decreases from a task to its parent and increases from a task to its subtasks.
  The trees of \<open>decompose_task\<close> are of this kind as long as \<open>uuid4\<close> returns new ids.
\<close>

definition forest :: "(string \<Rightarrow> nat) \<Rightarrow> system \<Rightarrow> bool" where
  "forest level st =
     list_all (\<lambda>(tid, t).
        (truthy (parent_task_id t) \<longrightarrow> level (the (parent_task_id t)) < level tid) \<and>
        list_all (\<lambda>c. level tid < level c) (subtasks t)) (tasks st)"

text \<open>What one call of the parent check does to the parent itself, before it recurses.\<close>

definition aggregate :: "system \<Rightarrow> string \<Rightarrow> system option" where
  "aggregate st pid =
     (case get_task st pid of
        None \<Rightarrow> None
      | Some parent_task \<Rightarrow>
          if subtasks parent_task = [] then None
          else map_option (complete_parent st pid parent_task)
                 (collect_results (tasks st) (subtasks parent_task) []))"




section \<open>Example states\<close>

definition demo_parent :: task where
  "demo_parent = (new_task ''p'' ''comprehensive_analysis'' (PDict []) (PInt 1) 0)
     \<lparr>status := ''decomposed'', subtasks := [''c1'', ''c2'']\<rparr>"

definition demo_child :: "string \<Rightarrow> string \<Rightarrow> nat \<Rightarrow> task" where
  "demo_child tid ty now = (new_task tid ty (PDict []) (PInt 1) now)
     \<lparr>status := ''assigned'', started_at := Some now, assigned_agent := Some ''w'',
      parent_task_id := Some ''p''\<rparr>"

definition demo_tree :: system where
  "demo_tree = \<lparr>tasks = [(''p'', demo_parent),
                          (''c1'', demo_child ''c1'' ''market_analysis'' 1),
                          (''c2'', demo_child ''c2'' ''price_analysis'' 2)],
                agents = [], clock = 3, uuid_count = 3\<rparr>"

definition status_after :: "(bool \<times> system) option \<Rightarrow> string \<Rightarrow> string option" where
  "status_after r tid = (case r of None \<Rightarrow> None | Some (_, st) \<Rightarrow> status_of st tid)"

definition demo_children_done :: system where
  "demo_children_done =
     \<lparr>tasks = [(''p'', demo_parent),
               (''c1'', (demo_child ''c1'' ''market_analysis'' 1)
                   \<lparr>status := ''completed'', completed_at := Some 3, result := PStr ''up''\<rparr>),
               (''c2'', (demo_child ''c2'' ''price_analysis'' 2)
                   \<lparr>status := ''completed'', completed_at := Some 4, result := PStr ''fair''\<rparr>)],
      agents = [], clock = 5, uuid_count = 3\<rparr>"



definition demo_gen :: "nat \<Rightarrow> string" where
  "demo_gen n = (if n = 0 then ''s1'' else if n = 1 then ''s2'' else if n = 2 then ''s3'' else ''s4'')"

definition demo_single :: system where
  "demo_single =
     \<lparr>tasks = [(''t'', new_task ''t'' ''market_analysis'' (PDict []) (PInt 1) 0)],
      agents = [], clock = 1, uuid_count = 0\<rparr>"

definition demo_spec :: subtask_spec where
  "demo_spec = \<lparr>spec_task_type = ''price_analysis'', spec_params = PDict []\<rparr>"

definition decompose_again ::
  "(nat \<Rightarrow> string) \<Rightarrow> (string list \<times> system) option \<Rightarrow> string \<Rightarrow> subtask_spec list
     \<Rightarrow> (string list \<times> system) option"
where
  "decompose_again gen r tid specs =
     (case r of None \<Rightarrow> None | Some (_, st) \<Rightarrow> decompose_task gen st tid specs)"

definition subtasks_after :: "(string list \<times> system) option \<Rightarrow> string \<Rightarrow> string list option" where
  "subtasks_after r tid = (case r of None \<Rightarrow> None | Some (_, st) \<Rightarrow> subtasks_of st tid)"

text \<open>
  The load of a worker in the words of the specification: its tasks in the states
  \<open>assigned\<close> or \<open>running\<close>. The source counts with \<open>get_tasks_by_agent\<close> (see \<open>load\<close>).
\<close>

definition active_load :: "system \<Rightarrow> string \<Rightarrow> nat" where
  "active_load st aid =
     length (filter (\<lambda>t. assigned_agent t = Some aid \<and>
                          (status t = ''assigned'' \<or> status t = ''running''))
               (map snd (tasks st)))"

definition assigned_agent_after :: "(bool \<times> system) option \<Rightarrow> string \<Rightarrow> string option option" where
  "assigned_agent_after r tid =
     (case r of None \<Rightarrow> None | Some (_, st) \<Rightarrow> map_option assigned_agent (get_task st tid))"

definition demo_worker :: "string \<Rightarrow> agent" where
  "demo_worker aid =
     \<lparr>agent_id = aid, agent_type = ''market_trend_analysis_agent'', message_queue = []\<rparr>"

definition demo_job :: "string \<Rightarrow> string \<Rightarrow> string \<Rightarrow> task" where
  "demo_job tid aid s = (new_task tid ''market_analysis'' (PDict []) (PInt 1) 0)
     \<lparr>status := s, started_at := Some 0, assigned_agent := Some aid\<rparr>"

definition demo_load :: system where
  "demo_load =
     \<lparr>tasks = [(''d1'', demo_job ''d1'' ''a1'' ''completed''),
               (''d2'', demo_job ''d2'' ''a1'' ''completed''),
               (''r1'', demo_job ''r1'' ''a2'' ''assigned''),
               (''n'', new_task ''n'' ''market_analysis'' (PDict []) (PInt 1) 3)],
      agents = [(''a1'', demo_worker ''a1''), (''a2'', demo_worker ''a2'')],
      clock = 4, uuid_count = 4\<rparr>"

definition reply_of :: "py_error + (message option \<times> system) \<Rightarrow> message option option" where
  "reply_of r = (case r of Inl _ \<Rightarrow> None | Inr (reply, _) \<Rightarrow> Some reply)"

definition status_in :: "py_error + (message option \<times> system) \<Rightarrow> string \<Rightarrow> string option" where
  "status_in r tid = (case r of Inl _ \<Rightarrow> None | Inr (_, st) \<Rightarrow> status_of st tid)"

definition no_callbacks :: "string \<rightharpoonup> (message \<Rightarrow> message option)" where
  "no_callbacks = Map.empty"

definition demo_last_pending :: system where
  "demo_last_pending =
     \<lparr>tasks = [(''p'', demo_parent),
               (''c1'', (demo_child ''c1'' ''market_analysis'' 1)
                   \<lparr>status := ''completed'', completed_at := Some 3, result := PStr ''up''\<rparr>),
               (''c2'', demo_child ''c2'' ''price_analysis'' 2)],
      agents = [], clock = 4, uuid_count = 3\<rparr>"

definition demo_result_message :: "string \<Rightarrow> message" where
  "demo_result_message tid =
     \<lparr>sender = ''w'', receiver = ''coordinator'',
      content = PDict [(''task_id'', PStr tid), (''status'', PStr ''completed''),
                       (''result'', PStr ''fair'')],
      msg_type = ''task_result''\<rparr>"

definition demo_expert_task :: atask where
  "demo_expert_task =
     \<lparr>a_task_id = ''data_collection_1'', a_task_type = ''data_collection'',
      parameters = [], depends_on = None, required_expertise = ''market_data''\<rparr>"

definition demo_coordinator :: coordinator_agent where
  "demo_coordinator =
     \<lparr>self_agent_id = ''coordinator_agent_1'', memory = [], has_handler = True,
      handed_over = [],
      available_agents = [(''sales_expert_1'', [(''expertise'', PStr ''sales_data'')])],
      active_tasks = [], task_results = [], current_analysis_id = None,
      clock3 = 0, uuid_count3 = 0\<rparr>"

definition initial_process :: process where
  "initial_process =
     \<lparr>task_registry_instance = None, agent_registry_instance = None,
      task_registry_objects = [], agent_registry_objects = [],
      process_clock = 0, process_uuid_count = 0\<rparr>"

definition entry_status_after :: "py_error + coordinator_agent \<Rightarrow> string \<Rightarrow> string option" where
  "entry_status_after r k =
     (case r of Inl _ \<Rightarrow> None
      | Inr st \<Rightarrow> map_option entry_status (map_of (active_tasks st) k))"

definition then_process ::
  "(nat \<Rightarrow> string) \<Rightarrow> py_error + coordinator_agent \<Rightarrow> amessage \<Rightarrow> py_error + coordinator_agent"
where
  "then_process gen r m = (case r of Inl e \<Rightarrow> Inl e | Inr st \<Rightarrow> process_message3 gen st m)"

definition then_act :: "py_error + coordinator_agent \<Rightarrow> py_error + coordinator_agent" where
  "then_act r = (case r of Inl e \<Rightarrow> Inl e | Inr st \<Rightarrow> act st)"

definition demo_team :: coordinator_agent where
  "demo_team =
     \<lparr>self_agent_id = ''coordinator_agent_1'', memory = [], has_handler = True,
      handed_over = [],
      available_agents =
        [(''market_expert_1'', [(''expertise'', PStr ''market_data'')]),
         (''market_analysis_expert_1'', [(''expertise'', PStr ''market_analysis'')]),
         (''strategy_expert_1'', [(''expertise'', PStr ''business_strategy'')])],
      active_tasks = [], task_results = [], current_analysis_id = None,
      clock3 = 0, uuid_count3 = 0\<rparr>"

definition demo_request :: amessage where
  "demo_request =
     \<lparr>message_id = ''m1'', from_agent_id = ''ui_agent_1'', to_agent_id = ''coordinator_agent_1'',
      content3 = [(''analysis_type'', PStr market_trend), (''category'', PStr ''phones'')],
      message_type = ''analysis_request'', reference_id = None, timestamp = 0\<rparr>"

definition demo_collection_done :: amessage where
  "demo_collection_done =
     \<lparr>message_id = ''m2'', from_agent_id = ''market_expert_1'',
      to_agent_id = ''coordinator_agent_1'',
      content3 = [(''task_id'', PStr ''data_collection_1''), (''analysis_id'', PStr ''m1''),
                  (''status'', PStr ''completed''), (''result'', PDict [])],
      message_type = ''task_result'', reference_id = None, timestamp = 1\<rparr>"

text \<open>The identifiers that the next \<open>n\<close> calls of \<open>uuid4\<close> return.\<close>

definition next_uuids :: "(nat \<Rightarrow> string) \<Rightarrow> system \<Rightarrow> nat \<Rightarrow> string list" where
  "next_uuids gen st n = map gen [uuid_count st..<uuid_count st + n]"

text \<open>The subtask that \<open>decompose_task\<close> makes of a specification.\<close>

definition created_subtask :: "string \<Rightarrow> subtask_spec \<Rightarrow> task \<Rightarrow> nat \<Rightarrow> task" where
  "created_subtask sid spec parent now =
     (new_task sid (spec_task_type spec) (spec_params spec) (priority parent) now)
       \<lparr>parent_task_id := Some (task_id parent)\<rparr>"

definition task_after :: "(string list \<times> system) option \<Rightarrow> string \<Rightarrow> task option" where
  "task_after r k = (case r of None \<Rightarrow> None | Some (_, st) \<Rightarrow> get_task st k)"

definition reply_receiver :: "py_error + (message option \<times> system) \<Rightarrow> string option" where
  "reply_receiver r =
     (case r of Inl _ \<Rightarrow> None | Inr (None, _) \<Rightarrow> None | Inr (Some m, _) \<Rightarrow> Some (receiver m))"

definition reply_type :: "py_error + (message option \<times> system) \<Rightarrow> string option" where
  "reply_type r =
     (case r of Inl _ \<Rightarrow> None | Inr (None, _) \<Rightarrow> None | Inr (Some m, _) \<Rightarrow> Some (msg_type m))"

definition then_process_message ::
  "(string \<rightharpoonup> (message \<Rightarrow> message option)) \<Rightarrow> string \<Rightarrow> (nat \<Rightarrow> string)
     \<Rightarrow> py_error + (message option \<times> system) \<Rightarrow> message \<Rightarrow> py_error + (message option \<times> system)"
where
  "then_process_message callbacks self_id gen r m =
     (case r of Inl e \<Rightarrow> Inl e | Inr (_, st) \<Rightarrow> process_message callbacks self_id gen st m)"

definition demo_office :: system where
  "demo_office =
     \<lparr>tasks = [], agents = [(''w'', demo_worker ''w'')], clock = 0, uuid_count = 0\<rparr>"

definition demo_user_request :: message where
  "demo_user_request =
     \<lparr>sender = ''user'', receiver = ''coordinator'',
      content = PDict [(''task_type'', PStr ''market_analysis''), (''params'', PDict [])],
      msg_type = ''task_request''\<rparr>"

definition demo_registered_task :: task where
  "demo_registered_task = new_task ''t'' ''market_analysis'' (PDict []) (PInt 1) 0"

definition demo_manager :: task_manager where
  "demo_manager = fst (TaskManager_init initial_process)"

definition demo_managed :: process where
  "demo_managed =
     snd (manager_create_task demo_gen (snd (TaskManager_init initial_process)) demo_manager
            ''market_analysis'' (PDict []) (PInt 1))"

definition demo_first_coordinator :: coordinator where
  "demo_first_coordinator = fst (Coordinator_init initial_process ''coordinator'')"

definition demo_coordinated :: process where
  "demo_coordinated =
     snd (manager_create_task demo_gen (snd (Coordinator_init initial_process ''coordinator''))
            (coordinator_task_manager demo_first_coordinator)
            ''market_analysis'' (PDict []) (PInt 1))"

section \<open>Properties of the parent check\<close>

lemma check_unfold:
  "check_parent_task_completion st pid =
     (case aggregate st pid of
        None \<Rightarrow> Some st
      | Some st1 \<Rightarrow>
          if truthy (parent_task_id (the (get_task st pid)))
          then check_parent_task_completion st1 (the (parent_task_id (the (get_task st pid))))
          else Some st1)"
  by (subst check_parent_task_completion.simps)
     (simp add: aggregate_def split: option.splits)

lemma set_update_subset: "set (AList.update k v al) \<subseteq> insert (k, v) (set al)"
  by (induction al) auto

lemma get_task_complete_parent:
  "get_task (complete_parent st pid pt res) tid =
     (if tid = pid
      then Some (pt\<lparr>status := ''completed'', completed_at := Some (clock st), result := PDict res\<rparr>)
      else get_task st tid)"
  by (simp add: get_task_def complete_parent_def update_conv')

lemma forest_update:
  assumes "forest level st" and "get_task st k = Some t"
    and "parent_task_id t' = parent_task_id t" and "subtasks t' = subtasks t"
  shows "forest level (st\<lparr>tasks := AList.update k t' (tasks st), clock := c\<rparr>)"
proof -
  have in_reg: "(k, t) \<in> set (tasks st)"
    using assms(2) by (simp add: get_task_def map_of_SomeD)
  show ?thesis
    unfolding forest_def list_all_iff
  proof
    fix x assume "x \<in> set (tasks (st\<lparr>tasks := AList.update k t' (tasks st), clock := c\<rparr>))"
    then have "x = (k, t') \<or> x \<in> set (tasks st)"
      using set_update_subset[of k t' "tasks st"] by auto
    then show "case x of (tid, t) \<Rightarrow>
        (truthy (parent_task_id t) \<longrightarrow> level (the (parent_task_id t)) < level tid) \<and>
        (\<forall>c\<in>set (subtasks t). level tid < level c)"
      using assms(1,3,4) in_reg unfolding forest_def list_all_iff by fastforce
  qed
qed

lemma forest_parent:
  "forest level st \<Longrightarrow> get_task st tid = Some t \<Longrightarrow> truthy (parent_task_id t) \<Longrightarrow>
   level (the (parent_task_id t)) < level tid"
  unfolding forest_def list_all_iff get_task_def by (auto dest!: map_of_SomeD)


lemma aggregate_SomeD:
  assumes "aggregate st pid = Some st1"
  obtains pt res where "get_task st pid = Some pt" "subtasks pt \<noteq> []"
    "collect_results (tasks st) (subtasks pt) [] = Some res"
    "st1 = complete_parent st pid pt res"
  using assms by (auto simp: aggregate_def split: option.splits if_splits)

lemma forest_aggregate:
  assumes "forest level st" "aggregate st pid = Some st1"
  shows "forest level st1"
proof -
  from assms(2) obtain pt res where pt: "get_task st pid = Some pt"
    and st1: "st1 = complete_parent st pid pt res"
    by (rule aggregate_SomeD)
  show ?thesis
    unfolding st1 complete_parent_def
    by (rule forest_update[OF assms(1) pt]) simp_all
qed

lemma check_total:
  assumes "forest level st"
  shows "\<exists>st'. check_parent_task_completion st pid = Some st' \<and> forest level st' \<and>
           (\<forall>tid. tid \<noteq> pid \<and> level pid \<le> level tid \<longrightarrow> get_task st' tid = get_task st tid) \<and>
           get_task st' pid = (case aggregate st pid of None \<Rightarrow> get_task st pid
                               | Some st1 \<Rightarrow> get_task st1 pid) \<and>
           (aggregate st pid = None \<longrightarrow> st' = st)"
  using assms
proof (induction "level pid" arbitrary: st pid rule: less_induct)
  case less
  show ?case
  proof (cases "aggregate st pid")
    case None
    then show ?thesis using less.prems by (subst check_unfold) simp
  next
    case (Some st1)
    then obtain pt res where pt: "get_task st pid = Some pt"
      and st1: "st1 = complete_parent st pid pt res"
      by (rule aggregate_SomeD)
    have f1: "forest level st1" using less.prems Some by (rule forest_aggregate)
    have frame1: "\<And>tid. tid \<noteq> pid \<Longrightarrow> get_task st1 tid = get_task st tid"
      by (simp add: st1 get_task_complete_parent)
    show ?thesis
    proof (cases "truthy (parent_task_id pt)")
      case False
      then show ?thesis using Some pt f1 frame1 by (subst check_unfold) simp
    next
      case True
      let ?p = "the (parent_task_id pt)"
      have lt: "level ?p < level pid" using less.prems pt True by (rule forest_parent)
      from less.hyps[OF lt f1] obtain st' where
        run: "check_parent_task_completion st1 ?p = Some st'" and f': "forest level st'"
        and frame: "\<forall>tid. tid \<noteq> ?p \<and> level ?p \<le> level tid \<longrightarrow> get_task st' tid = get_task st1 tid"
        by blast
      have "check_parent_task_completion st pid = Some st'"
        using Some pt True run by (subst check_unfold) simp
      moreover have "\<forall>tid. tid \<noteq> pid \<and> level pid \<le> level tid \<longrightarrow> get_task st' tid = get_task st tid"
      proof (intro allI impI)
        fix tid assume a: "tid \<noteq> pid \<and> level pid \<le> level tid"
        then have "tid \<noteq> ?p \<and> level ?p \<le> level tid" using lt by auto
        then have "get_task st' tid = get_task st1 tid" using frame by blast
        then show "get_task st' tid = get_task st tid" using frame1 a by simp
      qed
      moreover have "get_task st' pid = get_task st1 pid"
      proof -
        have "pid \<noteq> ?p \<and> level ?p \<le> level pid" using lt by auto
        then show ?thesis using frame by blast
      qed
      ultimately show ?thesis using f' Some by simp
    qed
  qed
qed

lemma collect_results_blocked:
  "c \<in> set sids \<Longrightarrow> \<forall>t. map_of reg c = Some t \<longrightarrow> status t \<noteq> ''completed'' \<Longrightarrow>
   collect_results reg sids acc = None"
  by (induction sids arbitrary: acc) (auto split: option.splits)

lemma check_blocked:
  assumes "get_task st pid = Some pt" "c \<in> set (subtasks pt)"
    and "\<forall>t. get_task st c = Some t \<longrightarrow> status t \<noteq> ''completed''"
  shows "check_parent_task_completion st pid = Some st"
proof -
  have "collect_results (tasks st) (subtasks pt) [] = None"
    using assms(2,3) unfolding get_task_def by (rule collect_results_blocked)
  then have "aggregate st pid = None"
    using assms(1) by (simp add: aggregate_def)
  then show ?thesis by (subst check_unfold) simp
qed

lemma get_task_set_outcome:
  "get_task (set_outcome st tid t s r) k =
     (if k = tid then Some (t\<lparr>status := s, completed_at := Some (clock st), result := r\<rparr>)
      else get_task st k)"
  by (simp add: get_task_def set_outcome_def update_conv')

lemma get_task_set_status:
  "get_task (set_status st tid t s) k =
     (if k = tid then Some (t\<lparr>status := s\<rparr>) else get_task st k)"
  by (simp add: get_task_def set_status_def update_conv')


















section \<open>The task state machine of agents\_test1\<close>

text \<open>The entry of a task after its status update.\<close>

lemma update_task_status_entry:
  assumes "forest level st" and "get_task st tid = Some t"
  shows "\<exists>st'. update_task_status st tid s r = Some (True, st') \<and>
           get_task st' tid =
             Some (if s = ''completed'' \<or> s = ''failed''
                   then t\<lparr>status := s, completed_at := Some (clock st), result := r\<rparr>
                   else t\<lparr>status := s\<rparr>)"
proof (cases "s = ''completed'' \<or> s = ''failed''")
  case False
  then show ?thesis using assms(2)
    by (simp add: update_task_status_def get_task_set_status)
next
  case True
  let ?st1 = "set_outcome st tid t s r"
  have st1: "get_task ?st1 tid = Some (t\<lparr>status := s, completed_at := Some (clock st), result := r\<rparr>)"
    by (simp add: get_task_set_outcome)
  show ?thesis
  proof (cases "truthy (parent_task_id t)")
    case False
    then show ?thesis using True assms(2) st1 by (simp add: update_task_status_def)
  next
    case p: True
    let ?p = "the (parent_task_id t)"
    have lt: "level ?p < level tid" using assms p by (rule forest_parent)
    have f1: "forest level ?st1"
      unfolding set_outcome_def by (rule forest_update[OF assms]) simp_all
    from check_total[OF f1, of ?p] obtain st' where
      run: "check_parent_task_completion ?st1 ?p = Some st'"
      and frame: "\<forall>k. k \<noteq> ?p \<and> level ?p \<le> level k \<longrightarrow> get_task st' k = get_task ?st1 k"
      by blast
    have "tid \<noteq> ?p \<and> level ?p \<le> level tid" using lt by auto
    then have "get_task st' tid = get_task ?st1 tid" using frame by blast
    moreover have "update_task_status st tid s r = Some (True, st')"
      using True assms(2) p run by (simp add: update_task_status_def)
    ultimately show ?thesis using st1 True by auto
  qed
qed

text \<open>
  Claim C3, as amended. \<open>update_task_status\<close> has no guard on the current status: for a
  registered task, in a registry whose links form a forest, it returns \<open>True\<close> and
  leaves the task with the status it was given, whatever the status was before,
  \<open>completed\<close> and \<open>failed\<close> included. The two are not absorbing.
\<close>

theorem update_task_status_overwrites:
  assumes "forest level st" and "get_task st tid = Some t"
  shows "\<exists>st'. update_task_status st tid s r = Some (True, st') \<and> status_of st' tid = Some s"
proof -
  from update_task_status_entry[OF assms, of s r] obtain st' where
    "update_task_status st tid s r = Some (True, st')"
    "get_task st' tid =
       Some (if s = ''completed'' \<or> s = ''failed''
             then t\<lparr>status := s, completed_at := Some (clock st), result := r\<rparr>
             else t\<lparr>status := s\<rparr>)"
    by blast
  then show ?thesis by (auto simp: status_of_def)
qed

theorem update_task_status_overwrites_witness:
  "forest length demo_children_done \<and>
   get_task demo_children_done ''c1'' =
     Some ((demo_child ''c1'' ''market_analysis'' 1)
             \<lparr>status := ''completed'', completed_at := Some 3, result := PStr ''up''\<rparr>) \<and>
   (\<exists>st'. update_task_status demo_children_done ''c1'' ''running'' PNone = Some (True, st') \<and>
          status_of st' ''c1'' = Some ''running'')"
proof -
  have f: "forest length demo_children_done"
    by (simp add: forest_def demo_children_done_def demo_parent_def demo_child_def new_task_def)
  have g: "get_task demo_children_done ''c1'' =
     Some ((demo_child ''c1'' ''market_analysis'' 1)
             \<lparr>status := ''completed'', completed_at := Some 3, result := PStr ''up''\<rparr>)"
    by (simp add: get_task_def demo_children_done_def)
  show ?thesis
    using f g update_task_status_overwrites[OF f g, of "''running''" PNone] by simp
qed

text \<open>
  A completed task that is reported \<open>running\<close> afterwards is running: the status left
  the terminal state.
\<close>

theorem terminal_status_left_counterexample:
  "status_of demo_children_done ''c1'' = Some ''completed'' \<and>
   status_after (update_task_status demo_children_done ''c1'' ''running'' PNone) ''c1''
     = Some ''running''"
  by (simp add: status_of_def status_after_def update_task_status_def get_task_def
      set_status_def demo_children_done_def demo_child_def new_task_def)

text \<open>
  Claim C2, as amended. The code has no propagation of a failure. When a subtask of a
  parent is reported \<open>failed\<close>, \<open>update_task_status\<close> records the status and the error on
  the subtask and nothing else: the parent check meets a subtask that is not completed and
  returns without a change, so the parent keeps its record. As long as that subtask is
  failed, every later parent check is without effect too, whatever the other subtasks
  have become.
\<close>

theorem failed_child_not_propagated:
  assumes "get_task st tid = Some t" and "parent_task_id t = Some pid" and "pid \<noteq> []"
    and "get_task st pid = Some pt" and "tid \<in> set (subtasks pt)" and "pid \<noteq> tid"
  shows "update_task_status st tid ''failed'' err = Some (True, set_outcome st tid t ''failed'' err)
       \<and> status_of (set_outcome st tid t ''failed'' err) tid = Some ''failed''
       \<and> get_task (set_outcome st tid t ''failed'' err) pid = Some pt
       \<and> (\<forall>st'. get_task st' pid = Some pt \<and> status_of st' tid = Some ''failed''
             \<longrightarrow> check_parent_task_completion st' pid = Some st')"
proof -
  let ?st1 = "set_outcome st tid t ''failed'' err"
  have p1: "get_task ?st1 pid = Some pt"
    using assms(4,6) by (simp add: get_task_set_outcome)
  have "\<forall>u. get_task ?st1 tid = Some u \<longrightarrow> status u \<noteq> ''completed''"
    by (simp add: get_task_set_outcome)
  with p1 assms(5) have "check_parent_task_completion ?st1 pid = Some ?st1"
    by (rule check_blocked)
  then have "update_task_status st tid ''failed'' err = Some (True, ?st1)"
    using assms(1,2,3) by (simp add: update_task_status_def)
  moreover have "status_of ?st1 tid = Some ''failed''"
    by (simp add: status_of_def get_task_set_outcome)
  moreover have "\<forall>st'. get_task st' pid = Some pt \<and> status_of st' tid = Some ''failed''
             \<longrightarrow> check_parent_task_completion st' pid = Some st'"
  proof (intro allI impI)
    fix st' assume a: "get_task st' pid = Some pt \<and> status_of st' tid = Some ''failed''"
    then have "\<forall>u. get_task st' tid = Some u \<longrightarrow> status u \<noteq> ''completed''"
      by (auto simp: status_of_def)
    with a assms(5) show "check_parent_task_completion st' pid = Some st'"
      using check_blocked by blast
  qed
  ultimately show ?thesis using p1 by simp
qed

theorem failed_child_not_propagated_witness:
  "get_task demo_tree ''c1'' = Some (demo_child ''c1'' ''market_analysis'' 1) \<and>
   parent_task_id (demo_child ''c1'' ''market_analysis'' 1) = Some ''p'' \<and> ''p'' \<noteq> [] \<and>
   get_task demo_tree ''p'' = Some demo_parent \<and> ''c1'' \<in> set (subtasks demo_parent) \<and>
   ''p'' \<noteq> ''c1'' \<and>
   update_task_status demo_tree ''c1'' ''failed'' (PStr ''boom'') =
     Some (True, set_outcome demo_tree ''c1'' (demo_child ''c1'' ''market_analysis'' 1)
                   ''failed'' (PStr ''boom'')) \<and>
   get_task (set_outcome demo_tree ''c1'' (demo_child ''c1'' ''market_analysis'' 1)
               ''failed'' (PStr ''boom'')) ''p'' = Some demo_parent"
proof -
  have a: "get_task demo_tree ''c1'' = Some (demo_child ''c1'' ''market_analysis'' 1)"
    by (simp add: get_task_def demo_tree_def)
  have b: "parent_task_id (demo_child ''c1'' ''market_analysis'' 1) = Some ''p''"
    by (simp add: demo_child_def)
  have c: "''p'' \<noteq> []" by simp
  have d: "get_task demo_tree ''p'' = Some demo_parent"
    by (simp add: get_task_def demo_tree_def)
  have e: "''c1'' \<in> set (subtasks demo_parent)" by (simp add: demo_parent_def)
  have f: "''p'' \<noteq> ''c1''" by simp
  show ?thesis
    using a b d e failed_child_not_propagated[OF a b c d e f, of "PStr ''boom''"] by simp
qed

text \<open>
  The subtask \<open>c1\<close> fails and then its sibling \<open>c2\<close> completes: the parent \<open>p\<close> is
  still \<open>decomposed\<close>, not \<open>failed\<close>.
\<close>

theorem failed_child_parent_not_failed_counterexample:
  "status_after (update_task_status demo_tree ''c1'' ''failed'' (PStr ''boom'')) ''c1''
     = Some ''failed'' \<and>
   status_after (update_task_status demo_tree ''c1'' ''failed'' (PStr ''boom'')) ''p''
     = Some ''decomposed'' \<and>
   status_after
     (update_task_status
        (set_outcome demo_tree ''c1'' (demo_child ''c1'' ''market_analysis'' 1)
           ''failed'' (PStr ''boom''))
        ''c2'' ''completed'' (PStr ''fair'')) ''p''
     = Some ''decomposed''"
  by (simp add: status_of_def status_after_def update_task_status_def get_task_def
      set_outcome_def demo_tree_def demo_parent_def demo_child_def new_task_def
      check_parent_task_completion.simps)




section \<open>Decomposition and assignment in agents\_test1\<close>

lemma get_task_register:
  "get_task (register st t) k = (if k = task_id t then Some t else get_task st k)"
  by (simp add: get_task_def register_def update_conv')

lemma get_task_counters:
  "get_task (st\<lparr>clock := c, uuid_count := u\<rparr>) k = get_task st k"
  by (simp add: get_task_def)

lemma get_task_modify_task:
  "get_task (modify_task st k f) k' =
     (if k' = k then map_option f (get_task st k) else get_task st k')"
  by (simp add: get_task_def modify_task_def update_conv' split: option.splits)

lemma uuid_count_modify_task: "uuid_count (modify_task st k f) = uuid_count st"
  by (simp add: modify_task_def split: option.splits)

lemma next_uuids_Suc:
  "next_uuids gen st (Suc n) =
     gen (uuid_count st) # map gen [Suc (uuid_count st)..<Suc (uuid_count st) + n]"
  unfolding next_uuids_def by (subst upt_rec) simp

lemma clock_modify_task: "clock (modify_task st k f) = clock st"
  by (simp add: modify_task_def split: option.splits)

lemma decompose_loop_creates:
  assumes "get_task st tid = Some t"
    and "tid \<notin> set (next_uuids gen st (length specs))"
    and "distinct (next_uuids gen st (length specs))"
  shows "fst (decompose_loop gen st tid specs) = next_uuids gen st (length specs) \<and>
         get_task (snd (decompose_loop gen st tid specs)) tid =
           Some (t\<lparr>subtasks := subtasks t @ next_uuids gen st (length specs)\<rparr>) \<and>
         (\<forall>i<length specs.
            get_task (snd (decompose_loop gen st tid specs)) (next_uuids gen st (length specs) ! i) =
              Some (created_subtask (next_uuids gen st (length specs) ! i) (specs ! i) t
                      (clock st + i))) \<and>
         (\<forall>k. k \<noteq> tid \<and> k \<notin> set (next_uuids gen st (length specs)) \<longrightarrow>
            get_task (snd (decompose_loop gen st tid specs)) k = get_task st k)"
  using assms
proof (induction specs arbitrary: st t)
  case Nil
  then show ?case by (simp add: next_uuids_def)
next
  case (Cons spec specs)
  let ?sid = "gen (uuid_count st)"
  let ?st1 = "snd (create_task gen st (spec_task_type spec) (spec_params spec)
                     (priority (the (get_task st tid))))"
  let ?st3 = "modify_task
                (modify_task ?st1 ?sid
                   (\<lambda>subtask. subtask\<lparr>parent_task_id := Some (task_id (the (get_task st tid)))\<rparr>))
                tid (\<lambda>t. t\<lparr>subtasks := subtasks t @ [?sid]\<rparr>)"
  let ?t' = "t\<lparr>subtasks := subtasks t @ [?sid]\<rparr>"
  have u3: "uuid_count ?st3 = Suc (uuid_count st)"
    by (simp add: uuid_count_modify_task create_task_def register_def)
  have c3: "clock ?st3 = Suc (clock st)"
    by (simp add: clock_modify_task create_task_def register_def)
  have ids': "next_uuids gen ?st3 (length specs) =
      map gen [Suc (uuid_count st)..<Suc (uuid_count st) + length specs]"
    unfolding next_uuids_def u3 ..
  have "next_uuids gen st (length (spec # specs)) = next_uuids gen st (Suc (length specs))"
    by simp
  then have ids: "next_uuids gen st (length (spec # specs)) =
      ?sid # next_uuids gen ?st3 (length specs)"
    unfolding ids' by (simp only: next_uuids_Suc)
  let ?ids' = "next_uuids gen ?st3 (length specs)"
  have ne: "?sid \<noteq> tid" and nin: "?sid \<notin> set ?ids'" and tnin: "tid \<notin> set ?ids'"
    and dist: "distinct ?ids'"
    using Cons.prems(2,3) unfolding ids by auto
  have g1: "\<And>k. get_task ?st1 k =
      (if k = ?sid then Some (new_task ?sid (spec_task_type spec) (spec_params spec) (priority t)
                               (clock st))
       else get_task st k)"
    using Cons.prems(1)
    by (simp add: create_task_def get_task_register new_task_def get_task_counters)
  have g3: "\<And>k. get_task ?st3 k =
      (if k = tid then Some ?t'
       else if k = ?sid then Some (created_subtask ?sid spec t (clock st))
       else get_task st k)"
    using ne Cons.prems(1) g1 by (simp add: get_task_modify_task created_subtask_def)
  have g3t: "get_task ?st3 tid = Some ?t'" by (simp add: g3)
  note ih = Cons.IH[OF g3t tnin dist]
  have unfold: "decompose_loop gen st tid (spec # specs) =
      (?sid # fst (decompose_loop gen ?st3 tid specs), snd (decompose_loop gen ?st3 tid specs))"
    by (simp add: create_task_def split: prod.splits)
  let ?fin = "snd (decompose_loop gen ?st3 tid specs)"
  have a: "fst (decompose_loop gen st tid (spec # specs)) = ?sid # ?ids'"
    unfolding unfold using ih by simp
  have b: "get_task ?fin tid = Some (t\<lparr>subtasks := subtasks t @ ?sid # ?ids'\<rparr>)"
    using ih by simp
  have frame: "\<And>k. k \<noteq> tid \<Longrightarrow> k \<notin> set ?ids' \<Longrightarrow> get_task ?fin k = get_task ?st3 k"
    using ih by blast
  have c0: "get_task ?fin ?sid = Some (created_subtask ?sid spec t (clock st))"
    using frame[OF ne nin] ne by (simp add: g3)
  have cs: "\<And>j. j < length specs \<Longrightarrow>
      get_task ?fin (?ids' ! j) = Some (created_subtask (?ids' ! j) (specs ! j) t (clock st + Suc j))"
  proof -
    fix j assume "j < length specs"
    then have "get_task ?fin (?ids' ! j) =
        Some (created_subtask (?ids' ! j) (specs ! j) ?t' (clock ?st3 + j))"
      using ih by blast
    then show "get_task ?fin (?ids' ! j) =
        Some (created_subtask (?ids' ! j) (specs ! j) t (clock st + Suc j))"
      by (simp add: c3 created_subtask_def)
  qed
  have c: "\<forall>i<length (spec # specs).
      get_task ?fin ((?sid # ?ids') ! i) =
        Some (created_subtask ((?sid # ?ids') ! i) ((spec # specs) ! i) t (clock st + i))"
  proof (intro allI impI)
    fix i assume i: "i < length (spec # specs)"
    show "get_task ?fin ((?sid # ?ids') ! i) =
        Some (created_subtask ((?sid # ?ids') ! i) ((spec # specs) ! i) t (clock st + i))"
    proof (cases i)
      case 0
      then show ?thesis using c0 by simp
    next
      case (Suc j)
      then show ?thesis using cs[of j] i by simp
    qed
  qed
  have d: "\<forall>k. k \<noteq> tid \<and> k \<notin> set (?sid # ?ids') \<longrightarrow> get_task ?fin k = get_task st k"
  proof (intro allI impI)
    fix k assume k: "k \<noteq> tid \<and> k \<notin> set (?sid # ?ids')"
    then have "get_task ?fin k = get_task ?st3 k" using frame by simp
    then show "get_task ?fin k = get_task st k" using k by (simp add: g3)
  qed
  have s: "snd (decompose_loop gen st tid (spec # specs)) = ?fin"
    unfolding unfold by simp
  show ?case
    unfolding ids s using a b c d by simp
qed

text \<open>
  Claim C7, as amended. \<open>decompose_task\<close> has no guard against a second decomposition.
  Every call on a registered task, with new identifiers from \<open>uuid4\<close>, registers one new
  pending subtask for each specification, with the specification's type and parameters,
  the parent's priority and the parent's id as its parent link, and appends the new ids,
  in order, behind the ids that the subtask list already holds; no other task changes.
  The parent's status becomes \<open>decomposed\<close> if it was \<open>pending\<close> and is left as it is
  otherwise. The list is append-only, but a task decomposed again gets its subtasks again.
\<close>

theorem decompose_task_appends:
  assumes "get_task st tid = Some t"
    and "tid \<notin> set (next_uuids gen st (length specs))"
    and "distinct (next_uuids gen st (length specs))"
  shows "\<exists>st'. decompose_task gen st tid specs = Some (next_uuids gen st (length specs), st') \<and>
           get_task st' tid =
             Some (t\<lparr>subtasks := subtasks t @ next_uuids gen st (length specs),
                     status := (if status t = ''pending'' then ''decomposed'' else status t)\<rparr>) \<and>
           (\<forall>i<length specs.
              get_task st' (next_uuids gen st (length specs) ! i) =
                Some (created_subtask (next_uuids gen st (length specs) ! i) (specs ! i) t
                        (clock st + i))) \<and>
           (\<forall>k. k \<noteq> tid \<and> k \<notin> set (next_uuids gen st (length specs)) \<longrightarrow>
              get_task st' k = get_task st k)"
proof -
  let ?ids = "next_uuids gen st (length specs)"
  let ?f = "\<lambda>t. if status t = ''pending'' then t\<lparr>status := ''decomposed''\<rparr> else t"
  obtain sids st1 where l: "decompose_loop gen st tid specs = (sids, st1)"
    by (cases "decompose_loop gen st tid specs") auto
  from decompose_loop_creates[OF assms] l have sids: "sids = ?ids"
    and g: "get_task st1 tid = Some (t\<lparr>subtasks := subtasks t @ ?ids\<rparr>)"
    and c: "\<forall>i<length specs. get_task st1 (?ids ! i) =
              Some (created_subtask (?ids ! i) (specs ! i) t (clock st + i))"
    and d: "\<forall>k. k \<noteq> tid \<and> k \<notin> set ?ids \<longrightarrow> get_task st1 k = get_task st k"
    by simp_all
  let ?st' = "modify_task st1 tid ?f"
  have 1: "decompose_task gen st tid specs = Some (?ids, ?st')"
    using assms(1) l sids by (simp add: decompose_task_def)
  have 2: "get_task ?st' tid =
             Some (t\<lparr>subtasks := subtasks t @ ?ids,
                     status := (if status t = ''pending'' then ''decomposed'' else status t)\<rparr>)"
    using g by (simp add: get_task_modify_task)
  have 3: "\<forall>i<length specs. get_task ?st' (?ids ! i) =
              Some (created_subtask (?ids ! i) (specs ! i) t (clock st + i))"
  proof (intro allI impI)
    fix i assume i: "i < length specs"
    then have "?ids ! i \<in> set ?ids" by (simp add: next_uuids_def)
    then have "?ids ! i \<noteq> tid" using assms(2) by auto
    then show "get_task ?st' (?ids ! i) =
              Some (created_subtask (?ids ! i) (specs ! i) t (clock st + i))"
      using c i by (simp add: get_task_modify_task)
  qed
  have 4: "\<forall>k. k \<noteq> tid \<and> k \<notin> set ?ids \<longrightarrow> get_task ?st' k = get_task st k"
    using d by (simp add: get_task_modify_task)
  from 1 2 3 4 show ?thesis by blast
qed

theorem decompose_task_appends_witness:
  "get_task demo_single ''t'' = Some (new_task ''t'' ''market_analysis'' (PDict []) (PInt 1) 0) \<and>
   next_uuids demo_gen demo_single 2 = [''s1'', ''s2''] \<and>
   (\<exists>st'. decompose_task demo_gen demo_single ''t'' [demo_spec, demo_spec] =
             Some ([''s1'', ''s2''], st') \<and>
          get_task st' ''t'' =
            Some ((new_task ''t'' ''market_analysis'' (PDict []) (PInt 1) 0)
                    \<lparr>subtasks := [''s1'', ''s2''], status := ''decomposed''\<rparr>) \<and>
          get_task st' ''s1'' =
            Some ((new_task ''s1'' ''price_analysis'' (PDict []) (PInt 1) 1)
                    \<lparr>parent_task_id := Some ''t''\<rparr>) \<and>
          get_task st' ''s2'' =
            Some ((new_task ''s2'' ''price_analysis'' (PDict []) (PInt 1) 2)
                    \<lparr>parent_task_id := Some ''t''\<rparr>))"
proof -
  let ?t = "new_task ''t'' ''market_analysis'' (PDict []) (PInt 1) 0"
  have g: "get_task demo_single ''t'' = Some ?t"
    by (simp add: get_task_def demo_single_def)
  have ids: "next_uuids demo_gen demo_single 2 = [''s1'', ''s2'']"
    by (simp add: next_uuids_def demo_single_def demo_gen_def upt_rec)
  have len: "length [demo_spec, demo_spec] = 2" by simp
  have fr: "''t'' \<notin> set (next_uuids demo_gen demo_single (length [demo_spec, demo_spec]))"
    unfolding len ids by simp
  have di: "distinct (next_uuids demo_gen demo_single (length [demo_spec, demo_spec]))"
    unfolding len ids by simp
  from decompose_task_appends[OF g fr di, unfolded len ids] obtain st' where
    1: "decompose_task demo_gen demo_single ''t'' [demo_spec, demo_spec] =
          Some ([''s1'', ''s2''], st')"
    and 2: "get_task st' ''t'' =
          Some (?t\<lparr>subtasks := subtasks ?t @ [''s1'', ''s2''],
                   status := (if status ?t = ''pending'' then ''decomposed'' else status ?t)\<rparr>)"
    and 3: "\<forall>i<2. get_task st' ([''s1'', ''s2''] ! i) =
          Some (created_subtask ([''s1'', ''s2''] ! i) ([demo_spec, demo_spec] ! i) ?t
                  (clock demo_single + i))"
    by blast
  have t: "get_task st' ''t'' = Some (?t\<lparr>subtasks := [''s1'', ''s2''], status := ''decomposed''\<rparr>)"
    using 2 by (simp add: new_task_def)
  have "(0::nat) < 2" by simp
  from 3[rule_format, OF this]
  have s1: "get_task st' ''s1'' =
      Some ((new_task ''s1'' ''price_analysis'' (PDict []) (PInt 1) 1)
              \<lparr>parent_task_id := Some ''t''\<rparr>)"
    by (simp add: created_subtask_def demo_spec_def new_task_def demo_single_def)
  have "(1::nat) < 2" by simp
  from 3[rule_format, OF this]
  have s2: "get_task st' ''s2'' =
      Some ((new_task ''s2'' ''price_analysis'' (PDict []) (PInt 1) 2)
              \<lparr>parent_task_id := Some ''t''\<rparr>)"
    by (simp add: created_subtask_def demo_spec_def new_task_def demo_single_def)
  show ?thesis using g ids 1 t s1 s2 by blast
qed

text \<open>
  One specification, decomposed twice: the task has two registered subtasks of the same
  type.
\<close>

theorem decomposed_twice_counterexample:
  "subtasks_after (decompose_task demo_gen demo_single ''t'' [demo_spec]) ''t'' = Some [''s1''] \<and>
   subtasks_after
     (decompose_again demo_gen (decompose_task demo_gen demo_single ''t'' [demo_spec])
        ''t'' [demo_spec]) ''t''
     = Some [''s1'', ''s2''] \<and>
   task_after
     (decompose_again demo_gen (decompose_task demo_gen demo_single ''t'' [demo_spec])
        ''t'' [demo_spec]) ''s1''
     = Some ((new_task ''s1'' ''price_analysis'' (PDict []) (PInt 1) 1)
               \<lparr>parent_task_id := Some ''t''\<rparr>) \<and>
   task_after
     (decompose_again demo_gen (decompose_task demo_gen demo_single ''t'' [demo_spec])
        ''t'' [demo_spec]) ''s2''
     = Some ((new_task ''s2'' ''price_analysis'' (PDict []) (PInt 1) 2)
               \<lparr>parent_task_id := Some ''t''\<rparr>)"
  by (simp add: subtasks_after_def task_after_def decompose_again_def decompose_task_def
      create_task_def register_def modify_task_def subtasks_of_def get_task_def update_conv'
      demo_single_def demo_gen_def demo_spec_def new_task_def)

text \<open>
  What the automatic choice does: among the registered agents of the type that the task's
  type maps to, in registration order, it takes the first one with the least number of
  registered tasks whose \<open>assigned_agent\<close> it is.
\<close>

lemma min_by_first:
  "\<exists>pre post. best # xs = pre @ min_by key best xs # post \<and>
              (\<forall>x\<in>set pre. key (min_by key best xs) < key x) \<and>
              (\<forall>x\<in>set post. key (min_by key best xs) \<le> key x)"
proof (induction xs arbitrary: best)
  case Nil
  have "[best] = [] @ min_by key best [] # []" by simp
  then show ?case by (metis empty_iff list.set(1))
next
  case (Cons x xs)
  show ?case
  proof (cases "key x < key best")
    case True
    from Cons.IH[of x] obtain pre post where
      s: "x # xs = pre @ min_by key x xs # post"
      and a: "\<forall>y\<in>set pre. key (min_by key x xs) < key y"
      and b: "\<forall>y\<in>set post. key (min_by key x xs) \<le> key y"
      by blast
    have "key (min_by key x xs) \<le> key x"
    proof (cases pre)
      case Nil
      with s have "min_by key x xs = x" by (metis append_Nil list.inject)
      then show ?thesis by (metis order_refl)
    next
      case (Cons p ps)
      then have "x \<in> set pre" using s by simp
      then show ?thesis using a by auto
    qed
    then have "\<forall>y\<in>set (best # pre). key (min_by key x xs) < key y"
      using a True by auto
    moreover have "best # x # xs = (best # pre) @ min_by key x xs # post"
      using s by simp
    ultimately show ?thesis using True b by (metis min_by.simps(2))
  next
    case False
    from Cons.IH[of best] obtain pre post where
      s: "best # xs = pre @ min_by key best xs # post"
      and a: "\<forall>y\<in>set pre. key (min_by key best xs) < key y"
      and b: "\<forall>y\<in>set post. key (min_by key best xs) \<le> key y"
      by blast
    show ?thesis
    proof (cases pre)
      case Nil
      with s have m: "min_by key best xs = best" and xs: "xs = post"
        by (metis append_Nil list.inject)+
      have "best # x # xs = [] @ best # (x # post)" using xs by simp
      moreover have "\<forall>y\<in>set (x # post). key best \<le> key y"
        using b m False by auto
      ultimately show ?thesis using False m
        by (metis empty_iff list.set(1) min_by.simps(2))
    next
      case (Cons p ps)
      with s have p: "p = best" and xs: "xs = ps @ min_by key best xs # post"
        by (metis append_Cons list.inject)+
      have lt: "key (min_by key best xs) < key best" using a Cons p by simp
      have "best # x # xs = (best # x # ps) @ min_by key best xs # post"
        using xs by simp
      moreover have "\<forall>y\<in>set (best # x # ps). key (min_by key best xs) < key y"
        using a Cons p lt False by auto
      ultimately show ?thesis using False b by (metis min_by.simps(2))
    qed
  qed
qed

lemma choose_agent_first_least:
  assumes "choose_agent st t = Some aid"
  shows "\<exists>ty pre a post.
           map_of task_type_to_agent_type (task_type t) = Some ty \<and>
           get_agents_by_type st ty = pre @ a # post \<and> agent_id a = aid \<and>
           (\<forall>b\<in>set pre. load st a < load st b) \<and>
           (\<forall>b\<in>set post. load st a \<le> load st b)"
proof -
  from assms obtain ty a0 as where
    ty: "map_of task_type_to_agent_type (task_type t) = Some ty"
    and ags: "get_agents_by_type st ty = a0 # as"
    and aid: "aid = agent_id (min_by (load st) a0 as)"
    by (auto simp: choose_agent_def split: option.splits list.splits)
  from min_by_first[of a0 as "load st"] ags aid ty show ?thesis by metis
qed

text \<open>
  Claim C5 at an input where the code and the claim differ. Worker \<open>a1\<close> was registered
  first and holds two completed tasks and no active one; worker \<open>a2\<close> holds one assigned
  task. The least-loaded worker by active tasks is \<open>a1\<close>; \<open>assign_task\<close> counts every
  registered task whose \<open>assigned_agent\<close> is the worker, finished ones too, and takes
  \<open>a2\<close>.
\<close>

theorem finished_tasks_count_as_load:
  "active_load demo_load ''a1'' = 0 \<and>
   active_load demo_load ''a2'' = 1 \<and>
   length (get_tasks_by_agent demo_load ''a1'') = 2 \<and>
   length (get_tasks_by_agent demo_load ''a2'') = 1 \<and>
   assigned_agent_after (assign_task demo_load ''n'' None) ''n'' = Some (Some ''a2'')"
  by (simp add: active_load_def assigned_agent_after_def assign_task_def choose_agent_def
      do_assign_def deliver_def get_agent_def get_agents_by_type_def get_tasks_by_agent_def
      load_def get_task_def task_type_to_agent_type_def update_conv'
      demo_load_def demo_job_def demo_worker_def new_task_def)

section \<open>A task that no worker can take\<close>

lemma find_in_agents_none:
  "list_all (\<lambda>e. map_of (snd e) ''expertise'' \<noteq> Some (PStr required)) ags \<Longrightarrow>
   find_in_agents ags required = None"
  by (induction ags required rule: find_in_agents.induct) auto

lemma choose_agent_none:
  assumes "list_all (\<lambda>a. Some (agent_type (snd a)) \<noteq> map_of task_type_to_agent_type (task_type tk)) (agents st)"
  shows "choose_agent st tk = None"
proof (cases "map_of task_type_to_agent_type (task_type tk)")
  case None
  then show ?thesis by (simp add: choose_agent_def)
next
  case (Some ty)
  have "get_agents_by_type st ty = []"
    using assms Some
    by (auto simp: get_agents_by_type_def filter_empty_conv list_all_iff)
  then show ?thesis using Some by (simp add: choose_agent_def)
qed

text \<open>
  Claim C6, as amended. In agents\_test3, when the dependencies of a task are satisfied
  (or it declares none) and no registered agent advertises the required expertise,
  \<open>_assign_task\<close> records the task in \<open>active_tasks\<close> with status \<open>failed\<close> and the error
  \<open>No suitable agent found\<close>, sends no message and returns. In agents\_test1, when no
  registered agent has the agent type that the task's type maps to, \<open>assign_task\<close>
  returns \<open>False\<close> and changes nothing: the task stays \<open>pending\<close>, neither failed nor
  assigned.
\<close>

theorem no_capable_worker:
  assumes "depends_on t = None \<or> check_dependencies cs (the (depends_on t))"
    and "list_all (\<lambda>e. map_of (snd e) ''expertise'' \<noteq> Some (PStr (required_expertise t)))
           (available_agents cs)"
    and "get_task st tid = Some tk" and "status tk = ''pending''"
    and "list_all (\<lambda>a. Some (agent_type (snd a)) \<noteq>
                         map_of task_type_to_agent_type (task_type tk)) (agents st)"
  shows "assign_task3 gen cs t analysis_id =
           cs\<lparr>active_tasks := AList.update (a_task_id t)
                 \<lparr>entry_task = t, entry_status = ''failed'', entry_analysis_id = analysis_id,
                  entry_error = Some ''No suitable agent found'',
                  entry_assigned_agent = None\<rparr> (active_tasks cs)\<rparr> \<and>
         assign_task st tid None = Some (False, st)"
proof -
  have "find_suitable_agent cs (required_expertise t) = None"
    unfolding find_suitable_agent_def using assms(2) by (rule find_in_agents_none)
  then have a: "assign_task3 gen cs t analysis_id =
           cs\<lparr>active_tasks := AList.update (a_task_id t)
                 \<lparr>entry_task = t, entry_status = ''failed'', entry_analysis_id = analysis_id,
                  entry_error = Some ''No suitable agent found'',
                  entry_assigned_agent = None\<rparr> (active_tasks cs)\<rparr>"
    using assms(1) by (auto simp: assign_task3_def)
  have "choose_agent st tk = None" using assms(5) by (rule choose_agent_none)
  then have "assign_task st tid None = Some (False, st)"
    using assms(3,4) by (simp add: assign_task_def)
  with a show ?thesis by simp
qed

theorem no_capable_worker_witness:
  "depends_on demo_expert_task = None \<and>
   get_task demo_single ''t'' = Some (new_task ''t'' ''market_analysis'' (PDict []) (PInt 1) 0) \<and>
   map_of (active_tasks (assign_task3 demo_gen demo_coordinator demo_expert_task ''a-1''))
       ''data_collection_1'' =
     Some \<lparr>entry_task = demo_expert_task, entry_status = ''failed'', entry_analysis_id = ''a-1'',
           entry_error = Some ''No suitable agent found'', entry_assigned_agent = None\<rparr> \<and>
   handed_over (assign_task3 demo_gen demo_coordinator demo_expert_task ''a-1'') = [] \<and>
   assign_task demo_single ''t'' None = Some (False, demo_single)"
proof -
  have a: "depends_on demo_expert_task = None \<or>
           check_dependencies demo_coordinator (the (depends_on demo_expert_task))"
    by (simp add: demo_expert_task_def)
  have b: "list_all (\<lambda>e. map_of (snd e) ''expertise'' \<noteq>
                          Some (PStr (required_expertise demo_expert_task)))
             (available_agents demo_coordinator)"
    by (simp add: demo_coordinator_def demo_expert_task_def)
  have c: "get_task demo_single ''t'' =
             Some (new_task ''t'' ''market_analysis'' (PDict []) (PInt 1) 0)"
    by (simp add: get_task_def demo_single_def)
  have d: "status (new_task ''t'' ''market_analysis'' (PDict []) (PInt 1) 0) = ''pending''"
    by (simp add: new_task_def)
  have e: "list_all (\<lambda>a. Some (agent_type (snd a)) \<noteq>
              map_of task_type_to_agent_type
                (task_type (new_task ''t'' ''market_analysis'' (PDict []) (PInt 1) 0)))
             (agents demo_single)"
    by (simp add: demo_single_def)
  have f: "depends_on demo_expert_task = None" by (simp add: demo_expert_task_def)
  have h: "handed_over demo_coordinator = []" "a_task_id demo_expert_task = ''data_collection_1''"
    by (simp_all add: demo_coordinator_def demo_expert_task_def)
  show ?thesis
    using c f h no_capable_worker[OF a b c d e, of demo_gen "''a-1''"]
    by (simp add: update_conv')
qed

text \<open>
  With no agent registered, the pending task of agents\_test1 is still pending after the
  assignment attempt.
\<close>

theorem unassignable_task_stays_pending_counterexample:
  "agents demo_single = [] \<and>
   assign_task demo_single ''t'' None = Some (False, demo_single) \<and>
   status_of demo_single ''t'' = Some ''pending''"
  by (simp add: assign_task_def choose_agent_def get_agents_by_type_def get_task_def
      status_of_def task_type_to_agent_type_def demo_single_def new_task_def)

section \<open>The reply to a task result\<close>

text \<open>
  What the coordinator returns for a result message of a registered task: one
  \<open>task_completed\<close> message to the sender of the result message if the task has no
  parent, nothing if it has one.
\<close>

lemma task_result_reply:
  assumes "callbacks ''task_result'' = None"
    and "msg_type m = ''task_result''" and "content m = PDict c"
    and "map_of c ''task_id'' = Some (PStr tid)"
    and "(case map_of c ''status'' of None \<Rightarrow> PStr ''completed'' | Some v \<Rightarrow> v) = PStr s"
    and "forest level st" and "get_task st tid = Some t"
  shows "\<exists>st'. process_message callbacks self_id gen st m =
             Inr (if truthy (parent_task_id t) then None
                  else Some \<lparr>sender = self_id, receiver = sender m,
                             content = PDict [(''task_id'', PStr tid), (''status'', PStr s),
                                (''result'', (case map_of c ''result'' of
                                                None \<Rightarrow> PNone | Some v \<Rightarrow> v))],
                             msg_type = ''task_completed''\<rparr>,
                  st') \<and>
           status_of st' tid = Some s"
proof -
  let ?r = "case map_of c ''result'' of None \<Rightarrow> PNone | Some v \<Rightarrow> v"
  from update_task_status_entry[OF assms(6,7), of s ?r] obtain st' where
    u: "update_task_status st tid s ?r = Some (True, st')"
    and g: "get_task st' tid =
             Some (if s = ''completed'' \<or> s = ''failed''
                   then t\<lparr>status := s, completed_at := Some (clock st), result := ?r\<rparr>
                   else t\<lparr>status := s\<rparr>)"
    by blast
  have "process_message callbacks self_id gen st m =
             Inr (if truthy (parent_task_id t) then None
                  else Some \<lparr>sender = self_id, receiver = sender m,
                             content = PDict [(''task_id'', PStr tid), (''status'', PStr s),
                                (''result'', ?r)],
                             msg_type = ''task_completed''\<rparr>,
                  st')"
    using assms(1-5) u g
    by (simp add: process_message_def task_result_def send_message_def)
  moreover have "status_of st' tid = Some s" using g by (simp add: status_of_def)
  ultimately show ?thesis by blast
qed

text \<open>
  Claim C8 at inputs where the code and the claim differ. The user asks for a market
  analysis and gets the reply to the request; the worker \<open>w\<close> then reports the result,
  the task is completed, and the completion notice goes to \<open>w\<close>, the sender of the
  result message, not to the user. And when the result of the last open subtask completes
  the root \<open>p\<close> by aggregation, the coordinator returns no message at all.
\<close>

theorem completion_notice_misses_requester:
  "reply_receiver (process_message no_callbacks ''coordinator'' demo_gen demo_office
                     demo_user_request) = Some ''user'' \<and>
   reply_type (process_message no_callbacks ''coordinator'' demo_gen demo_office
                 demo_user_request) = Some ''task_response'' \<and>
   status_in (process_message no_callbacks ''coordinator'' demo_gen demo_office
                demo_user_request) ''s1'' = Some ''assigned'' \<and>
   status_in (then_process_message no_callbacks ''coordinator'' demo_gen
                (process_message no_callbacks ''coordinator'' demo_gen demo_office
                   demo_user_request)
                (demo_result_message ''s1'')) ''s1'' = Some ''completed'' \<and>
   reply_type (then_process_message no_callbacks ''coordinator'' demo_gen
                 (process_message no_callbacks ''coordinator'' demo_gen demo_office
                    demo_user_request)
                 (demo_result_message ''s1'')) = Some ''task_completed'' \<and>
   reply_receiver (then_process_message no_callbacks ''coordinator'' demo_gen
                     (process_message no_callbacks ''coordinator'' demo_gen demo_office
                        demo_user_request)
                     (demo_result_message ''s1'')) = Some ''w'' \<and>
   status_of demo_last_pending ''p'' = Some ''decomposed'' \<and>
   status_in (process_message no_callbacks ''coordinator'' demo_gen demo_last_pending
                (demo_result_message ''c2'')) ''p'' = Some ''completed'' \<and>
   reply_of (process_message no_callbacks ''coordinator'' demo_gen demo_last_pending
               (demo_result_message ''c2'')) = Some None"
proof -
  have r1: "process_message no_callbacks ''coordinator'' demo_gen demo_office demo_user_request =
      Inr (Some \<lparr>sender = ''coordinator'', receiver = ''user'',
                  content = PDict [(''task_id'', PStr ''s1''), (''status'', PStr ''assigned'')],
                  msg_type = ''task_response''\<rparr>,
           \<lparr>tasks = [(''s1'', (new_task ''s1'' ''market_analysis'' (PDict []) (PInt 1) 0)
                          \<lparr>assigned_agent := Some ''w'', status := ''assigned'',
                             started_at := Some 1\<rparr>)],
            agents = [(''w'', (demo_worker ''w'')
                         \<lparr>message_queue :=
                            [\<lparr>sender = ''task_manager'', receiver = ''w'',
                              content = PDict [(''task_id'', PStr ''s1''),
                                               (''task_type'', PStr ''market_analysis''),
                                               (''params'', PDict [])],
                              msg_type = ''task''\<rparr>]\<rparr>)],
            clock = 2, uuid_count = 1\<rparr>)"
    by (simp add: process_message_def task_request_def no_callbacks_def create_task_def
        register_def assign_task_def choose_agent_def do_assign_def deliver_def
        receive_message_def send_message_def get_agent_def get_agents_by_type_def
        get_tasks_by_agent_def load_def get_task_def task_type_to_agent_type_def
        demo_office_def demo_user_request_def demo_worker_def demo_gen_def new_task_def)
  have a: "reply_receiver (process_message no_callbacks ''coordinator'' demo_gen demo_office
                     demo_user_request) = Some ''user''"
    "reply_type (process_message no_callbacks ''coordinator'' demo_gen demo_office
                 demo_user_request) = Some ''task_response''"
    "status_in (process_message no_callbacks ''coordinator'' demo_gen demo_office
                demo_user_request) ''s1'' = Some ''assigned''"
    unfolding r1 by (simp_all add: reply_receiver_def reply_type_def status_in_def status_of_def
        get_task_def)
  have b: "status_in (then_process_message no_callbacks ''coordinator'' demo_gen
                (process_message no_callbacks ''coordinator'' demo_gen demo_office
                   demo_user_request)
                (demo_result_message ''s1'')) ''s1'' = Some ''completed''"
    "reply_type (then_process_message no_callbacks ''coordinator'' demo_gen
                 (process_message no_callbacks ''coordinator'' demo_gen demo_office
                    demo_user_request)
                 (demo_result_message ''s1'')) = Some ''task_completed''"
    "reply_receiver (then_process_message no_callbacks ''coordinator'' demo_gen
                     (process_message no_callbacks ''coordinator'' demo_gen demo_office
                        demo_user_request)
                     (demo_result_message ''s1'')) = Some ''w''"
    unfolding r1
    by (simp_all add: then_process_message_def process_message_def task_result_def
        no_callbacks_def update_task_status_def set_outcome_def get_task_def send_message_def
        reply_receiver_def reply_type_def status_in_def status_of_def update_conv'
        demo_result_message_def new_task_def)
  have c: "status_of demo_last_pending ''p'' = Some ''decomposed''"
    "status_in (process_message no_callbacks ''coordinator'' demo_gen demo_last_pending
                (demo_result_message ''c2'')) ''p'' = Some ''completed''"
    "reply_of (process_message no_callbacks ''coordinator'' demo_gen demo_last_pending
               (demo_result_message ''c2'')) = Some None"
    by (simp_all add: status_of_def status_in_def reply_of_def process_message_def
        task_result_def no_callbacks_def update_task_status_def set_outcome_def
        complete_parent_def get_task_def check_parent_task_completion.simps update_conv'
        demo_last_pending_def demo_result_message_def demo_parent_def demo_child_def
        new_task_def)
  show ?thesis using a b c by simp
qed

section \<open>One registry for every manager\<close>

lemma TaskRegistry_new_stores:
  assumes "valid_process p"
  shows "task_registry_instance (snd (TaskRegistry_new p)) = Some (fst (TaskRegistry_new p)) \<and>
         fst (TaskRegistry_new p) < length (task_registry_objects (snd (TaskRegistry_new p))) \<and>
         valid_process (snd (TaskRegistry_new p))"
  using assms
  by (auto simp: TaskRegistry_new_def valid_process_def split: option.splits)

lemma AgentRegistry_new_stores:
  assumes "valid_process p"
  shows "agent_registry_instance (snd (AgentRegistry_new p)) = Some (fst (AgentRegistry_new p)) \<and>
         fst (AgentRegistry_new p) < length (agent_registry_objects (snd (AgentRegistry_new p))) \<and>
         valid_process (snd (AgentRegistry_new p))"
  using assms
  by (auto simp: AgentRegistry_new_def valid_process_def split: option.splits)

lemma TaskRegistry_new_reuses:
  "task_registry_instance p = Some r \<Longrightarrow> TaskRegistry_new p = (r, p)"
  by (simp add: TaskRegistry_new_def)

lemma AgentRegistry_new_reuses:
  "agent_registry_instance p = Some r \<Longrightarrow> AgentRegistry_new p = (r, p)"
  by (simp add: AgentRegistry_new_def)

lemma TaskManager_init_stores:
  assumes "valid_process p"
  shows "task_registry_instance (snd (TaskManager_init p)) =
           Some (task_registry (fst (TaskManager_init p))) \<and>
         agent_registry_instance (snd (TaskManager_init p)) =
           Some (agent_registry (fst (TaskManager_init p))) \<and>
         task_registry (fst (TaskManager_init p)) <
           length (task_registry_objects (snd (TaskManager_init p))) \<and>
         agent_registry (fst (TaskManager_init p)) <
           length (agent_registry_objects (snd (TaskManager_init p)))"
  using assms
  by (auto simp: TaskManager_init_def TaskRegistry_new_def AgentRegistry_new_def
      valid_process_def split: option.splits)

lemma TaskManager_init_reuses:
  assumes "task_registry_instance p = Some tr" and "agent_registry_instance p = Some ar"
  shows "TaskManager_init p = (\<lparr>task_registry = tr, agent_registry = ar\<rparr>, p)"
  using assms by (simp add: TaskManager_init_def TaskRegistry_new_def AgentRegistry_new_def)

lemma Coordinator_init_reuses:
  assumes "task_registry_instance p = Some tr" and "agent_registry_instance p = Some ar"
  shows "Coordinator_init p aid =
     (\<lparr>coordinator_agent_part = \<lparr>agent_id = aid, agent_type = ''coordinator'', message_queue = []\<rparr>,
       coordinator_task_manager = \<lparr>task_registry = tr, agent_registry = ar\<rparr>,
       coordinator_agent_registry = ar, coordinator_callbacks = []\<rparr>, p)"
  using assms
  by (simp add: Coordinator_init_def TaskManager_init_def TaskRegistry_new_def
      AgentRegistry_new_def)

lemma Coordinator_init_stores:
  assumes "valid_process p"
  shows "task_registry_instance (snd (Coordinator_init p aid)) =
           Some (task_registry (coordinator_task_manager (fst (Coordinator_init p aid)))) \<and>
         agent_registry_instance (snd (Coordinator_init p aid)) =
           Some (agent_registry (coordinator_task_manager (fst (Coordinator_init p aid)))) \<and>
         coordinator_agent_registry (fst (Coordinator_init p aid)) =
           agent_registry (coordinator_task_manager (fst (Coordinator_init p aid))) \<and>
         task_registry (coordinator_task_manager (fst (Coordinator_init p aid))) <
           length (task_registry_objects (snd (Coordinator_init p aid)))"
  using assms
  by (auto simp: Coordinator_init_def TaskManager_init_def TaskRegistry_new_def
      AgentRegistry_new_def valid_process_def split: option.splits)

lemma instances_manager_create_task:
  "task_registry_instance (snd (manager_create_task gen p m ty ps prio)) = task_registry_instance p"
  "agent_registry_instance (snd (manager_create_task gen p m ty ps prio)) = agent_registry_instance p"
  by (simp_all add: manager_create_task_def store_def create_task_def)

lemma manager_sees_created_task:
  assumes "task_registry m < length (task_registry_objects p)"
  shows "manager_get_task (snd (manager_create_task gen p m ty ps prio)) m
           (fst (manager_create_task gen p m ty ps prio)) =
         Some (new_task (gen (process_uuid_count p)) ty ps prio (process_clock p))"
  using assms
  by (simp add: manager_get_task_def manager_create_task_def create_task_def register_def
      view_def store_def get_task_def update_conv' new_task_def)

text \<open>
  Claim C9. The first construction of \<open>TaskRegistry\<close> (or \<open>AgentRegistry\<close>) in a process
  allocates the registry object, empty, and stores it in \<open>_instance\<close>; every later
  construction returns that reference and changes nothing, so what is registered through
  one reference is found through the next. A \<open>TaskManager\<close> or a \<open>Coordinator\<close> built
  after a task was created through an earlier manager or coordinator holds the same
  registries and finds the task.
\<close>

theorem registries_are_shared:
  fixes p :: process and gen :: "nat \<Rightarrow> string" and ty :: string and ps prio :: pyval
    and aid :: string
  assumes "valid_process p"
  defines "r \<equiv> fst (TaskRegistry_new p)" and "p1 \<equiv> snd (TaskRegistry_new p)"
    and "a \<equiv> fst (AgentRegistry_new p)" and "q1 \<equiv> snd (AgentRegistry_new p)"
    and "m \<equiv> fst (TaskManager_init p)"
    and "pm \<equiv> snd (manager_create_task gen (snd (TaskManager_init p))
                      (fst (TaskManager_init p)) ty ps prio)"
    and "c \<equiv> fst (Coordinator_init p aid)"
    and "pc \<equiv> snd (manager_create_task gen (snd (Coordinator_init p aid))
                      (coordinator_task_manager (fst (Coordinator_init p aid))) ty ps prio)"
  shows "task_registry_instance p1 = Some r \<and>
         r < length (task_registry_objects p1) \<and>
         (task_registry_instance p = None \<longrightarrow> task_registry_objects p1 ! r = []) \<and>
         TaskRegistry_new (registry_register p1 r t) = (r, registry_register p1 r t) \<and>
         registry_get_task (registry_register p1 r t) r (task_id t) = Some t \<and>
         agent_registry_instance q1 = Some a \<and>
         a < length (agent_registry_objects q1) \<and>
         (agent_registry_instance p = None \<longrightarrow> agent_registry_objects q1 ! a = []) \<and>
         AgentRegistry_new (registry_register_agent q1 a ag) = (a, registry_register_agent q1 a ag) \<and>
         registry_get_agent (registry_register_agent q1 a ag) a (agent_id ag) = Some ag \<and>
         TaskManager_init pm = (m, pm) \<and>
         manager_get_task pm m (gen (process_uuid_count (snd (TaskManager_init p)))) =
           Some (new_task (gen (process_uuid_count (snd (TaskManager_init p)))) ty ps prio
                   (process_clock (snd (TaskManager_init p)))) \<and>
         coordinator_agent_registry c = agent_registry (coordinator_task_manager c) \<and>
         TaskManager_init pc = (coordinator_task_manager c, pc) \<and>
         Coordinator_init pc aid' =
           (c\<lparr>coordinator_agent_part :=
                 \<lparr>agent_id = aid', agent_type = ''coordinator'', message_queue = []\<rparr>\<rparr>, pc) \<and>
         manager_get_task pc (coordinator_task_manager c)
             (gen (process_uuid_count (snd (Coordinator_init p aid)))) =
           Some (new_task (gen (process_uuid_count (snd (Coordinator_init p aid)))) ty ps prio
                   (process_clock (snd (Coordinator_init p aid))))"
proof -
  note t = TaskRegistry_new_stores[OF assms(1), folded r_def p1_def]
  note g = AgentRegistry_new_stores[OF assms(1), folded a_def q1_def]
  have t1: "task_registry_instance p1 = Some r" and t2: "r < length (task_registry_objects p1)"
    using t by simp_all
  have t3: "task_registry_instance p = None \<longrightarrow> task_registry_objects p1 ! r = []"
    unfolding p1_def r_def by (simp add: TaskRegistry_new_def)
  have "task_registry_instance (registry_register p1 r t) = Some r"
    using t1 by (simp add: registry_register_def)
  then have t4: "TaskRegistry_new (registry_register p1 r t) = (r, registry_register p1 r t)"
    by (rule TaskRegistry_new_reuses)
  have t5: "registry_get_task (registry_register p1 r t) r (task_id t) = Some t"
    using t2 by (simp add: registry_get_task_def registry_register_def update_conv')
  have a1: "agent_registry_instance q1 = Some a" and a2: "a < length (agent_registry_objects q1)"
    using g by simp_all
  have a3: "agent_registry_instance p = None \<longrightarrow> agent_registry_objects q1 ! a = []"
    unfolding q1_def a_def by (simp add: AgentRegistry_new_def)
  have "agent_registry_instance (registry_register_agent q1 a ag) = Some a"
    using a1 by (simp add: registry_register_agent_def)
  then have a4: "AgentRegistry_new (registry_register_agent q1 a ag) =
                   (a, registry_register_agent q1 a ag)"
    by (rule AgentRegistry_new_reuses)
  have a5: "registry_get_agent (registry_register_agent q1 a ag) a (agent_id ag) = Some ag"
    using a2 by (simp add: registry_get_agent_def registry_register_agent_def update_conv')
  note ms = TaskManager_init_stores[OF assms(1), folded m_def]
  have "TaskManager_init pm =
          (\<lparr>task_registry = task_registry m, agent_registry = agent_registry m\<rparr>, pm)"
    unfolding pm_def
    by (rule TaskManager_init_reuses) (simp_all add: instances_manager_create_task ms)
  then have m1: "TaskManager_init pm = (m, pm)" by simp
  have i1: "fst (manager_create_task gen (snd (TaskManager_init p)) m ty ps prio) =
              gen (process_uuid_count (snd (TaskManager_init p)))"
    by (simp add: manager_create_task_def create_task_def view_def)
  have m2: "manager_get_task pm m (gen (process_uuid_count (snd (TaskManager_init p)))) =
           Some (new_task (gen (process_uuid_count (snd (TaskManager_init p)))) ty ps prio
                   (process_clock (snd (TaskManager_init p))))"
    using manager_sees_created_task[of m "snd (TaskManager_init p)" gen ty ps prio] ms
    unfolding pm_def m_def[symmetric] i1 by simp
  note cs = Coordinator_init_stores[OF assms(1), of aid, folded c_def]
  have c1: "coordinator_agent_registry c = agent_registry (coordinator_task_manager c)"
    using cs by simp
  have ci: "task_registry_instance pc = Some (task_registry (coordinator_task_manager c))"
    "agent_registry_instance pc = Some (agent_registry (coordinator_task_manager c))"
    unfolding pc_def c_def[symmetric] using cs by (simp_all add: instances_manager_create_task)
  have "TaskManager_init pc =
          (\<lparr>task_registry = task_registry (coordinator_task_manager c),
            agent_registry = agent_registry (coordinator_task_manager c)\<rparr>, pc)"
    using ci by (rule TaskManager_init_reuses)
  then have c2: "TaskManager_init pc = (coordinator_task_manager c, pc)" by simp
  have cb: "coordinator_callbacks c = []"
    unfolding c_def by (simp add: Coordinator_init_def split: prod.splits)
  have c3: "Coordinator_init pc aid' =
           (c\<lparr>coordinator_agent_part :=
                 \<lparr>agent_id = aid', agent_type = ''coordinator'', message_queue = []\<rparr>\<rparr>, pc)"
    unfolding Coordinator_init_reuses[OF ci] using c1 cb by simp
  have i2: "fst (manager_create_task gen (snd (Coordinator_init p aid))
                   (coordinator_task_manager c) ty ps prio) =
              gen (process_uuid_count (snd (Coordinator_init p aid)))"
    by (simp add: manager_create_task_def create_task_def view_def)
  have c4: "manager_get_task pc (coordinator_task_manager c)
             (gen (process_uuid_count (snd (Coordinator_init p aid)))) =
           Some (new_task (gen (process_uuid_count (snd (Coordinator_init p aid)))) ty ps prio
                   (process_clock (snd (Coordinator_init p aid))))"
    using manager_sees_created_task[of "coordinator_task_manager c"
            "snd (Coordinator_init p aid)" gen ty ps prio] cs
    unfolding pc_def c_def[symmetric] i2 by simp
  show ?thesis
    by (intro conjI t1 t2 t3 t4 t5 a1 a2 a3 a4 a5 m1 m2 c1 c2 c3 c4)
qed

theorem registries_are_shared_witness:
  "valid_process initial_process \<and>
   task_registry_instance (snd (TaskRegistry_new initial_process)) = Some 0 \<and>
   task_registry_objects (snd (TaskRegistry_new initial_process)) ! 0 = [] \<and>
   registry_get_task
     (registry_register (snd (TaskRegistry_new initial_process)) 0 demo_registered_task)
     (fst (TaskRegistry_new
             (registry_register (snd (TaskRegistry_new initial_process)) 0 demo_registered_task)))
     ''t'' = Some demo_registered_task \<and>
   agent_registry_instance (snd (AgentRegistry_new initial_process)) = Some 0 \<and>
   agent_registry_objects (snd (AgentRegistry_new initial_process)) ! 0 = [] \<and>
   registry_get_agent
     (registry_register_agent (snd (AgentRegistry_new initial_process)) 0 (demo_worker ''w''))
     (fst (AgentRegistry_new
             (registry_register_agent (snd (AgentRegistry_new initial_process)) 0
                (demo_worker ''w''))))
     ''w'' = Some (demo_worker ''w'') \<and>
   fst (TaskManager_init demo_managed) = demo_manager \<and>
   manager_get_task demo_managed (fst (TaskManager_init demo_managed)) ''s1'' =
     Some (new_task ''s1'' ''market_analysis'' (PDict []) (PInt 1) 0) \<and>
   coordinator_task_manager (fst (Coordinator_init demo_coordinated ''coordinator_2'')) =
     coordinator_task_manager demo_first_coordinator \<and>
   coordinator_agent_registry (fst (Coordinator_init demo_coordinated ''coordinator_2'')) =
     agent_registry (coordinator_task_manager demo_first_coordinator) \<and>
   fst (TaskManager_init demo_coordinated) = coordinator_task_manager demo_first_coordinator \<and>
   manager_get_task demo_coordinated
     (coordinator_task_manager (fst (Coordinator_init demo_coordinated ''coordinator_2''))) ''s1'' =
     Some (new_task ''s1'' ''market_analysis'' (PDict []) (PInt 1) 0)"
proof -
  have v: "valid_process initial_process"
    by (simp add: valid_process_def initial_process_def)
  have n: "task_registry_instance initial_process = None"
    "agent_registry_instance initial_process = None"
    by (simp_all add: initial_process_def)
  have e: "fst (TaskRegistry_new initial_process) = 0" "fst (AgentRegistry_new initial_process) = 0"
    by (simp_all add: TaskRegistry_new_def AgentRegistry_new_def initial_process_def)
  have k: "process_uuid_count (snd (TaskManager_init initial_process)) = 0"
    "process_clock (snd (TaskManager_init initial_process)) = 0"
    "process_uuid_count (snd (Coordinator_init initial_process ''coordinator'')) = 0"
    "process_clock (snd (Coordinator_init initial_process ''coordinator'')) = 0"
    by (simp_all add: Coordinator_init_def TaskManager_init_def TaskRegistry_new_def
        AgentRegistry_new_def initial_process_def)
  have g: "demo_gen 0 = ''s1''" by (simp add: demo_gen_def)
  have i: "task_id demo_registered_task = ''t''" "agent_id (demo_worker ''w'') = ''w''"
    by (simp_all add: demo_registered_task_def new_task_def demo_worker_def)
  note th = registries_are_shared[OF v, where gen = demo_gen and ty = "''market_analysis''"
      and ps = "PDict []" and prio = "PInt 1" and aid = "''coordinator''"
      and aid' = "''coordinator_2''" and t = demo_registered_task and ag = "demo_worker ''w''",
      unfolded e k g i, folded demo_manager_def, folded demo_managed_def,
      folded demo_first_coordinator_def, folded demo_coordinated_def]
  have 1: "task_registry_instance (snd (TaskRegistry_new initial_process)) = Some 0"
    using th by blast
  have 2: "task_registry_objects (snd (TaskRegistry_new initial_process)) ! 0 = []"
    using th n by blast
  have 3: "registry_get_task
     (registry_register (snd (TaskRegistry_new initial_process)) 0 demo_registered_task)
     (fst (TaskRegistry_new
             (registry_register (snd (TaskRegistry_new initial_process)) 0 demo_registered_task)))
     ''t'' = Some demo_registered_task"
    using th by simp
  have 4: "agent_registry_instance (snd (AgentRegistry_new initial_process)) = Some 0"
    using th by blast
  have 5: "agent_registry_objects (snd (AgentRegistry_new initial_process)) ! 0 = []"
    using th n by blast
  have 6: "registry_get_agent
     (registry_register_agent (snd (AgentRegistry_new initial_process)) 0 (demo_worker ''w''))
     (fst (AgentRegistry_new
             (registry_register_agent (snd (AgentRegistry_new initial_process)) 0
                (demo_worker ''w''))))
     ''w'' = Some (demo_worker ''w'')"
    using th by simp
  have 7: "fst (TaskManager_init demo_managed) = demo_manager"
    using th by simp
  have 8: "manager_get_task demo_managed (fst (TaskManager_init demo_managed)) ''s1'' =
     Some (new_task ''s1'' ''market_analysis'' (PDict []) (PInt 1) 0)"
    using th by simp
  have 9: "coordinator_task_manager (fst (Coordinator_init demo_coordinated ''coordinator_2'')) =
     coordinator_task_manager demo_first_coordinator"
    using th by simp
  have 10: "coordinator_agent_registry (fst (Coordinator_init demo_coordinated ''coordinator_2'')) =
     agent_registry (coordinator_task_manager demo_first_coordinator)"
    using th by simp
  have 11: "fst (TaskManager_init demo_coordinated) = coordinator_task_manager demo_first_coordinator"
    using th by simp
  have 12: "manager_get_task demo_coordinated
     (coordinator_task_manager (fst (Coordinator_init demo_coordinated ''coordinator_2''))) ''s1'' =
     Some (new_task ''s1'' ''market_analysis'' (PDict []) (PInt 1) 0)"
    using th by simp
  show ?thesis by (intro conjI v 1 2 3 4 5 6 7 8 9 10 11 12)
qed

section \<open>The coordinator agent of agents\_test3\<close>

lemma fold_preserves:
  assumes "\<And>t s. P (f t s) = P s"
  shows "P (fold f ts s) = P s"
  using assms by (induction ts arbitrary: s) simp_all

lemma task_results_assign_task3: "task_results (assign_task3 gen st t a) = task_results st"
  by (simp add: assign_task3_def send_message3_def split: option.splits)

lemma current_analysis_id_assign_task3:
  "current_analysis_id (assign_task3 gen st t a) = current_analysis_id st"
  by (simp add: assign_task3_def send_message3_def split: option.splits)

lemma task_results_start: "task_results (start_analysis_workflow gen st m) = task_results st"
  unfolding start_analysis_workflow_def
  by (subst fold_preserves[where P = task_results])
     (simp_all add: task_results_assign_task3 update_memory_def)

lemma current_analysis_id_start:
  "current_analysis_id (start_analysis_workflow gen st m) = Some (message_id m)"
  unfolding start_analysis_workflow_def
  by (subst fold_preserves[where P = current_analysis_id])
     (simp_all add: current_analysis_id_assign_task3 update_memory_def)

text \<open>
  Claim C10. \<open>process_message\<close> raises \<open>AttributeError\<close> on every message of type
  \<open>task_result\<close>, and \<open>act\<close> raises it whenever an analysis is current. No call that
  returns changes \<open>task_results\<close>, and once an analysis request with a non-empty message
  id has been processed, \<open>act\<close> raises: no workflow records a result or completes.
\<close>

theorem result_ingestion_unreachable:
  "(message_type m = ''task_result'' \<longrightarrow> process_message3 gen st m = Inl AttributeError) \<and>
   (truthy (current_analysis_id st) \<longrightarrow> act st = Inl AttributeError) \<and>
   (process_message3 gen st m = Inr st' \<longrightarrow> task_results st' = task_results st) \<and>
   (act st = Inr st' \<longrightarrow> st' = st) \<and>
   (message_type m = ''analysis_request'' \<and> message_id m \<noteq> [] \<longrightarrow>
      (\<exists>st1. process_message3 gen st m = Inr st1 \<and> act st1 = Inl AttributeError))"
proof -
  have "process_message3 gen st m = Inr st' \<longrightarrow> task_results st' = task_results st"
    by (auto simp: process_message3_def task_results_start send_message3_def register_agent3_def
        split: if_splits)
  moreover have "message_type m = ''analysis_request'' \<and> message_id m \<noteq> [] \<longrightarrow>
      (\<exists>st1. process_message3 gen st m = Inr st1 \<and> act st1 = Inl AttributeError)"
    by (simp add: process_message3_def act_def current_analysis_id_start)
  ultimately show ?thesis
    by (auto simp: process_message3_def act_def split: if_splits)
qed

theorem result_ingestion_unreachable_witness:
  "process_message3 demo_gen demo_team demo_collection_done = Inl AttributeError \<and>
   act (demo_team\<lparr>current_analysis_id := Some ''m1''\<rparr>) = Inl AttributeError \<and>
   task_results (start_analysis_workflow demo_gen demo_team demo_request) = [] \<and>
   act demo_team = Inr demo_team \<and>
   then_act (process_message3 demo_gen demo_team demo_request) = Inl AttributeError"
proof -
  have a: "message_type demo_collection_done = ''task_result''"
    by (simp add: demo_collection_done_def)
  have b: "truthy (current_analysis_id (demo_team\<lparr>current_analysis_id := Some ''m1''\<rparr>))"
    by simp
  have c: "process_message3 demo_gen demo_team demo_request =
           Inr (start_analysis_workflow demo_gen demo_team demo_request)"
    by (simp add: process_message3_def demo_request_def)
  have d: "act demo_team = Inr demo_team" by (simp add: act_def demo_team_def)
  have e: "message_type demo_request = ''analysis_request'' \<and> message_id demo_request \<noteq> []"
    by (simp add: demo_request_def)
  have t: "task_results demo_team = []" by (simp add: demo_team_def)
  note r1 = result_ingestion_unreachable[of demo_collection_done demo_gen
              "demo_team\<lparr>current_analysis_id := Some ''m1''\<rparr>" demo_team]
  note r2 = result_ingestion_unreachable[of demo_request demo_gen demo_team
              "start_analysis_workflow demo_gen demo_team demo_request"]
  have f: "process_message3 demo_gen demo_team demo_collection_done = Inl AttributeError"
    by (simp add: process_message3_def a)
  have g: "then_act (process_message3 demo_gen demo_team demo_request) = Inl AttributeError"
    using r2 e c by (auto simp: then_act_def)
  show ?thesis using r1 r2 a b c d e f g t by simp
qed

text \<open>A task with an unsatisfied dependency is parked and nothing is sent.\<close>

lemma waiting_until_dependencies_completed:
  assumes "depends_on t = Some deps" and "\<not> check_dependencies st deps"
  shows "map_option entry_status (map_of (active_tasks (assign_task3 gen st t a)) (a_task_id t))
           = Some ''waiting'' \<and>
         handed_over (assign_task3 gen st t a) = handed_over st"
  using assms by (simp add: assign_task3_def update_conv')

text \<open>
  Claim C4 at an input where the code and the claim differ. The request starts a
  workflow: \<open>data_collection_1\<close> is assigned and \<open>data_analysis_2\<close>, which depends on
  it, waits. The result message for \<open>data_collection_1\<close> raises \<open>AttributeError\<close>: the
  waiting task is not looked at again.
\<close>

theorem waiting_task_never_released:
  "entry_status_after (process_message3 demo_gen demo_team demo_request) ''data_collection_1''
     = Some ''assigned'' \<and>
   entry_status_after (process_message3 demo_gen demo_team demo_request) ''data_analysis_2''
     = Some ''waiting'' \<and>
   then_process demo_gen (process_message3 demo_gen demo_team demo_request) demo_collection_done
     = Inl AttributeError"
  by (simp add: entry_status_after_def then_process_def process_message3_def
      start_analysis_workflow_def decompose_analysis_task_def assign_task3_def
      find_suitable_agent_def send_message3_def update_memory_def update_conv'
      demo_team_def demo_request_def demo_collection_done_def)

end
